theory Spec2Isabelle
  imports Complex_Main "HOL-Library.Word"
begin

section \<open>Scalars\<close>

text \<open>
  The sampler computes with IEEE floating point. The model keeps what the claims depend
  on, the not-a-number value and its propagation, and idealises the rest: a finite float
  is a real number (no rounding, no overflow), and there are no infinities: where IEEE
  yields an infinity, a value other than zero divided by zero, the model yields \<open>NaN\<close>.
  Line 93 divides a tensor by its own norm, which is zero only when every entry is zero
  (\<open>tnorm_zero_entries\<close> below): the quotients there are \<open>0/0\<close>, NaN in IEEE as they are
  here.
\<close>

datatype fl = Fin real | NaN

fun fadd :: "fl \<Rightarrow> fl \<Rightarrow> fl" where
  "fadd (Fin a) (Fin b) = Fin (a + b)"
| "fadd _ _ = NaN"

fun fsub :: "fl \<Rightarrow> fl \<Rightarrow> fl" where
  "fsub (Fin a) (Fin b) = Fin (a - b)"
| "fsub _ _ = NaN"

fun fmul :: "fl \<Rightarrow> fl \<Rightarrow> fl" where
  "fmul (Fin a) (Fin b) = Fin (a * b)"
| "fmul _ _ = NaN"

fun fdiv :: "fl \<Rightarrow> fl \<Rightarrow> fl" where
  "fdiv (Fin a) (Fin b) = (if b = 0 then NaN else Fin (a / b))"
| "fdiv _ _ = NaN"

fun fneg :: "fl \<Rightarrow> fl" where
  "fneg (Fin a) = Fin (- a)"
| "fneg NaN = NaN"

fun fsqrt :: "fl \<Rightarrow> fl" where
  "fsqrt (Fin a) = (if a < 0 then NaN else Fin (sqrt a))"
| "fsqrt NaN = NaN"

fun is_fin :: "fl \<Rightarrow> bool" where
  "is_fin (Fin a) = True"
| "is_fin NaN = False"

fun fin_val :: "fl \<Rightarrow> real" where
  "fin_val (Fin a) = a"
| "fin_val NaN = 0"

definition fsum :: "fl list \<Rightarrow> fl" where
  "fsum xs = foldr fadd xs (Fin 0)"

text \<open>A complex number is its Cartesian pair, as \<open>torch.complex(re, im)\<close> builds it.\<close>

type_synonym cfl = "fl \<times> fl"

fun cadd :: "cfl \<Rightarrow> cfl \<Rightarrow> cfl" where
  "cadd (a, b) (c, d) = (fadd a c, fadd b d)"

fun csub :: "cfl \<Rightarrow> cfl \<Rightarrow> cfl" where
  "csub (a, b) (c, d) = (fsub a c, fsub b d)"

fun cmul :: "cfl \<Rightarrow> cfl \<Rightarrow> cfl" where
  "cmul (a, b) (c, d) = (fsub (fmul a c) (fmul b d), fadd (fmul a d) (fmul b c))"

fun cconj :: "cfl \<Rightarrow> cfl" where
  "cconj (a, b) = (a, fneg b)"

fun cabs :: "cfl \<Rightarrow> fl" where
  "cabs (a, b) = fsqrt (fadd (fmul a a) (fmul b b))"

definition csum :: "cfl list \<Rightarrow> cfl" where
  "csum xs = foldr cadd xs (Fin 0, Fin 0)"

section \<open>Tensors\<close>

text \<open>
  A tensor is its shape and its entries, read by a multi-index. Only the entries at the
  indices of the shape (\<open>indices\<close>) are part of the tensor.
\<close>

record 'a tensor =
  shape :: "nat list"
  elem :: "nat list \<Rightarrow> 'a"

datatype error = IndexError | ShapeError | ValueError | TypeError | IOError

fun indices :: "nat list \<Rightarrow> nat list list" where
  "indices [] = [[]]"
| "indices (n # ns) = concat (map (\<lambda>i. map ((#) i) (indices ns)) [0..<n])"

definition valid_index :: "nat list \<Rightarrow> nat list \<Rightarrow> bool" where
  "valid_index s idx = list_all2 (<) idx s"

definition tmap :: "('a \<Rightarrow> 'b) \<Rightarrow> 'a tensor \<Rightarrow> 'b tensor" where
  "tmap f t = \<lparr>shape = shape t, elem = (\<lambda>idx. f (elem t idx))\<rparr>"

text \<open>
  Broadcasting of a binary elementwise operation: the shapes are aligned at their last
  axis; two sizes agree when they are equal or one of them is 1.
\<close>

definition bdim :: "nat \<Rightarrow> nat \<Rightarrow> nat option" where
  "bdim a b = (if a = b then Some a else if a = 1 then Some b
               else if b = 1 then Some a else None)"

fun bshape_rev :: "nat list \<Rightarrow> nat list \<Rightarrow> nat list option" where
  "bshape_rev [] ys = Some ys"
| "bshape_rev (x # xs) [] = Some (x # xs)"
| "bshape_rev (x # xs) (y # ys) =
     (case bdim x y of None \<Rightarrow> None
      | Some d \<Rightarrow> (case bshape_rev xs ys of None \<Rightarrow> None | Some ds \<Rightarrow> Some (d # ds)))"

definition broadcast_shapes :: "nat list \<Rightarrow> nat list \<Rightarrow> nat list option" where
  "broadcast_shapes s1 s2 = map_option rev (bshape_rev (rev s1) (rev s2))"

definition bproj :: "nat list \<Rightarrow> nat list \<Rightarrow> nat list" where
  "bproj s idx = map2 (\<lambda>d i. if d = 1 then 0 else i) s (drop (length idx - length s) idx)"

definition tbinop :: "('a \<Rightarrow> 'b \<Rightarrow> 'c) \<Rightarrow> 'a tensor \<Rightarrow> 'b tensor \<Rightarrow> error + 'c tensor" where
  "tbinop f a b =
     (case broadcast_shapes (shape a) (shape b) of
        None \<Rightarrow> Inl ShapeError
      | Some s \<Rightarrow> Inr \<lparr>shape = s,
                       elem = (\<lambda>idx. f (elem a (bproj (shape a) idx))
                                        (elem b (bproj (shape b) idx)))\<rparr>)"

text \<open>\<open>torch.norm(t)\<close>: the square root of the sum of the squares of all entries.\<close>

definition tnorm :: "fl tensor \<Rightarrow> fl" where
  "tnorm t = fsqrt (fsum (map (\<lambda>i. fmul (elem t i) (elem t i)) (indices (shape t))))"

text \<open>\<open>x[:, k]\<close>: the sub-tensor at position \<open>k\<close> of axis 1.\<close>

definition select1 :: "nat \<Rightarrow> 'a tensor \<Rightarrow> error + 'a tensor" where
  "select1 k x =
     (case shape x of
        b # c # rest \<Rightarrow>
          if k < c
          then Inr \<lparr>shape = b # rest,
                    elem = (\<lambda>idx. case idx of [] \<Rightarrow> elem x [] | i # r \<Rightarrow> elem x (i # k # r))\<rparr>
          else Inl IndexError
      | _ \<Rightarrow> Inl IndexError)"

text \<open>\<open>torch.sum(x, axis=1)\<close> of a complex tensor.\<close>

definition sum_axis1 :: "cfl tensor \<Rightarrow> error + cfl tensor" where
  "sum_axis1 x =
     (case shape x of
        b # c # rest \<Rightarrow>
          Inr \<lparr>shape = b # rest,
               elem = (\<lambda>idx. case idx of [] \<Rightarrow> elem x []
                              | i # r \<Rightarrow> csum (map (\<lambda>k. elem x (i # k # r)) [0..<c]))\<rparr>
      | _ \<Rightarrow> Inl IndexError)"

text \<open>\<open>torch.view_as_real\<close>: a last axis of size 2 holds the real and imaginary parts.\<close>

definition view_as_real :: "cfl tensor \<Rightarrow> fl tensor" where
  "view_as_real x =
     \<lparr>shape = shape x @ [2],
      elem = (\<lambda>idx. if idx = [] then fst (elem x [])
                     else if last idx = 0 then fst (elem x (butlast idx))
                     else snd (elem x (butlast idx)))\<rparr>"

text \<open>\<open>t.permute(0, 3, 1, 2)\<close>: axis \<open>i\<close> of the result is axis \<open>perm[i]\<close> of \<open>t\<close>.\<close>

definition permute_0312 :: "'a tensor \<Rightarrow> error + 'a tensor" where
  "permute_0312 x =
     (case shape x of
        [a, b, c, d] \<Rightarrow>
          Inr \<lparr>shape = [a, d, b, c],
               elem = (\<lambda>idx. case idx of [i, j, k, l] \<Rightarrow> elem x [i, k, l, j] | _ \<Rightarrow> elem x idx)\<rparr>
      | _ \<Rightarrow> Inl ShapeError)"

section \<open>Configuration, inputs and collaborators\<close>

record config =
  num_classes :: int
  start_iter :: int
  n_steps_each :: int
  step_lr :: real
  mse :: real
  batch_size :: nat
  image_size :: "nat \<times> nat"
  anatomy :: string
  denoise_005 :: bool
  circle_mask :: bool

record args =
  orientation :: string
  log_path :: string
  save_images :: bool

text \<open>One element of the data loader: the dictionary \<open>X\<close> of \<open>sample\<close>.\<close>

record batch =
  ground_truth :: "cfl tensor"
  mvue :: "cfl tensor"
  maps :: "cfl tensor"
  mask :: "fl tensor"
  slice_idx :: "int list"

text \<open>
  The functions \<open>sample\<close> imports from the modules \<open>models\<close> and \<open>datasets.utils\<close>, and
  the random generator, are parameters of the model: the score network, the multicoil
  forward operator, the inverse Fourier transform, the two scalings by the estimated
  reference, the reference estimate, the noise schedule, and \<open>randn k idx\<close>, the entry at
  \<open>idx\<close> of the \<open>k\<close>-th tensor drawn. So are the two metrics of scikit-image, which may
  raise, and the outcome of the file system's operations: \<open>write_ok n path\<close> tells whether
  writing \<open>path\<close> succeeds after \<open>n\<close> files have been written, \<open>font_available\<close> whether
  the font file of line 124 can be loaded.
\<close>

record env =
  score :: "fl tensor \<Rightarrow> int list \<Rightarrow> fl tensor"
  MulticoilForwardMRI :: "string \<Rightarrow> cfl tensor \<Rightarrow> cfl tensor \<Rightarrow> fl tensor \<Rightarrow> cfl tensor"
  ifft :: "cfl tensor \<Rightarrow> cfl tensor"
  normalize :: "fl tensor \<Rightarrow> cfl tensor \<Rightarrow> fl tensor"
  unnormalize :: "fl tensor \<Rightarrow> cfl tensor \<Rightarrow> fl tensor"
  get_mvue :: "cfl tensor \<Rightarrow> cfl tensor \<Rightarrow> cfl tensor"
  get_sigmas :: "config \<Rightarrow> real list"
  randn :: "nat \<Rightarrow> nat list \<Rightarrow> real"
  ssim :: "8 word tensor \<Rightarrow> 8 word tensor \<Rightarrow> error + fl"
  psnr :: "8 word tensor \<Rightarrow> 8 word tensor \<Rightarrow> error + fl"
  write_ok :: "nat \<Rightarrow> string \<Rightarrow> bool"
  font_available :: bool

datatype log_line = TotalBatches nat | BatchStep nat int

text \<open>
  The state \<open>sample\<close> threads through its loops: the candidate, the number of tensors
  drawn from the random generator so far, the label argument of every call of the score
  network so far, and the lines logged so far.
\<close>

record sampler_state =
  xt :: "fl tensor"
  rng :: nat
  score_log :: "int list list"
  info_log :: "log_line list"

datatype file_content =
  TensorImage "fl tensor" | AnnotatedImage "8 word tensor" fl fl | StatsJson "fl list" "fl list"

text \<open>
  What outlives a call of \<open>sample\<close>, also one that raises: the two lists of scores of the
  sampler object, and the files written, in the order of writing. An annotated image is the
  pixels and the two scores drawn onto them as text.
\<close>

record results =
  ssim_scores :: "fl list"
  psnr_scores :: "fl list"
  written :: "(string \<times> file_content) list"

section \<open>The guided Langevin sampler\<close>

definition bindE :: "error + 'a \<Rightarrow> ('a \<Rightarrow> error + 'b) \<Rightarrow> error + 'b" where
  "bindE m f = (case m of Inl e \<Rightarrow> Inl e | Inr v \<Rightarrow> f v)"

definition py_range :: "int \<Rightarrow> int list" where
  "py_range n = [0..n - 1]"

definition py_index :: "'a list \<Rightarrow> int \<Rightarrow> error + 'a" where
  "py_index xs i =
     (if 0 \<le> i \<and> i < int (length xs) then Inr (xs ! nat i)
      else if i < 0 \<and> - int (length xs) \<le> i then Inr (xs ! nat (int (length xs) + i))
      else Inl IndexError)"

definition randn_tensor :: "env \<Rightarrow> nat \<Rightarrow> nat list \<Rightarrow> fl tensor" where
  "randn_tensor E k s = \<lparr>shape = s, elem = (\<lambda>idx. Fin (randn E k idx))\<rparr>"

text \<open>Lines 62 to 64: the two channels become one complex image, which is measured.\<close>

definition forward_operator :: "env \<Rightarrow> args \<Rightarrow> batch \<Rightarrow> fl tensor \<Rightarrow> error + cfl tensor" where
  "forward_operator E A X x =
     bindE (select1 0 x) (\<lambda>re.
     bindE (select1 1 x) (\<lambda>im.
     bindE (tbinop Pair re im) (\<lambda>c.
       Inr (MulticoilForwardMRI E (orientation A) c (maps X) (mask X)))))"

text \<open>
  Lines 88 to 92: the data-consistency gradient before it is rescaled. The candidate is
  scaled by \<open>normalize\<close> with the estimated reference and measured; the residual is
  taken back to image space and scaled by \<open>unnormalize\<close>. The cast to a single-precision
  tensor of line 92 is the identity on the model's scalars.
\<close>

definition measurement_gradient ::
    "env \<Rightarrow> args \<Rightarrow> batch \<Rightarrow> cfl tensor \<Rightarrow> fl tensor \<Rightarrow> error + fl tensor" where
  "measurement_gradient E A X mv y =
     bindE (forward_operator E A X y) (\<lambda>meas.
     bindE (tbinop csub meas (ground_truth X)) (\<lambda>resid.
     bindE (tbinop cmul (ifft E resid) (tmap cconj (maps X))) (\<lambda>bk.
     bindE (sum_axis1 bk) (\<lambda>summed.
     bindE (permute_0312 (view_as_real summed)) (\<lambda>g.
       Inr (unnormalize E g mv))))))"

definition dc_gradient :: "env \<Rightarrow> args \<Rightarrow> batch \<Rightarrow> cfl tensor \<Rightarrow> fl tensor \<Rightarrow> error + fl tensor" where
  "dc_gradient E A X mv x = measurement_gradient E A X mv (normalize E x mv)"

text \<open>Lines 93 and 94: divide by the own norm, multiply by the norm of the prior gradient.\<close>

definition match_norm :: "fl tensor \<Rightarrow> fl tensor \<Rightarrow> fl tensor" where
  "match_norm g p = tmap (\<lambda>v. fmul v (tnorm p)) (tmap (\<lambda>v. fdiv v (tnorm g)) g)"

text \<open>Line 95: the mixing weight.\<close>

definition weighted :: "config \<Rightarrow> fl tensor \<Rightarrow> fl tensor" where
  "weighted cfg g = tmap (\<lambda>v. fmul v (Fin (mse cfg))) g"

definition scaled_noise :: "env \<Rightarrow> fl \<Rightarrow> sampler_state \<Rightarrow> fl tensor" where
  "scaled_noise E step_size st =
     tmap (\<lambda>v. fmul v (fsqrt (fmul step_size (Fin 2)))) (randn_tensor E (rng st) (shape (xt st)))"

text \<open>Lines 85 to 97: one inner iteration.\<close>

definition inner_iteration ::
    "env \<Rightarrow> config \<Rightarrow> args \<Rightarrow> batch \<Rightarrow> cfl tensor \<Rightarrow> fl \<Rightarrow> int list \<Rightarrow> sampler_state
     \<Rightarrow> error + sampler_state" where
  "inner_iteration E cfg A X mv step_size labels st =
     (let noise = scaled_noise E step_size st;
          p_grad = score E (xt st) labels;
          st1 = st\<lparr>rng := Suc (rng st), score_log := score_log st @ [labels]\<rparr>
      in bindE (dc_gradient E A X mv (xt st)) (\<lambda>g.
         let meas_grad = weighted cfg (match_norm g p_grad)
         in bindE (tbinop fsub p_grad meas_grad) (\<lambda>d.
            bindE (tbinop fadd (xt st) (tmap (fmul step_size) d)) (\<lambda>s.
            bindE (tbinop fadd s noise) (\<lambda>x'.
              Inr (st1\<lparr>xt := x'\<rparr>))))))"

fun inner_loop ::
    "env \<Rightarrow> config \<Rightarrow> args \<Rightarrow> batch \<Rightarrow> cfl tensor \<Rightarrow> fl \<Rightarrow> int list \<Rightarrow> nat \<Rightarrow> sampler_state
     \<Rightarrow> error + sampler_state" where
  "inner_loop E cfg A X mv step_size labels 0 st = Inr st"
| "inner_loop E cfg A X mv step_size labels (Suc n) st =
     bindE (inner_iteration E cfg A X mv step_size labels st)
           (inner_loop E cfg A X mv step_size labels n)"

text \<open>Lines 51 and 52.\<close>

definition log_interval :: "config \<Rightarrow> int" where
  "log_interval cfg =
     (let timesteps = num_classes cfg - start_iter cfg + 1
      in if timesteps < 5 then 1 else timesteps div 5)"

text \<open>Lines 72 to 75.\<close>

definition inner_count :: "config \<Rightarrow> int \<Rightarrow> int" where
  "inner_count cfg step = (if step \<le> 1800 then 3 else n_steps_each cfg)"

text \<open>Line 82.\<close>

definition step_size_at :: "config \<Rightarrow> real list \<Rightarrow> int \<Rightarrow> error + fl" where
  "step_size_at cfg sigmas step =
     bindE (py_index sigmas step) (\<lambda>sigma.
     bindE (py_index sigmas (- 1)) (\<lambda>sigma_last.
       let r = fdiv (Fin sigma) (Fin sigma_last)
       in Inr (fmul (Fin (step_lr cfg)) (fmul r r))))"

text \<open>Line 81: one label per element of the batch axis.\<close>

definition labels_at :: "fl tensor \<Rightarrow> int \<Rightarrow> error + int list" where
  "labels_at x step = (case shape x of [] \<Rightarrow> Inl IndexError | b # _ \<Rightarrow> Inr (replicate b step))"

text \<open>Lines 72 to 97: the work of one outer step that is not skipped.\<close>

definition outer_body ::
    "env \<Rightarrow> config \<Rightarrow> args \<Rightarrow> nat \<Rightarrow> batch \<Rightarrow> cfl tensor \<Rightarrow> real list \<Rightarrow> int \<Rightarrow> sampler_state
     \<Rightarrow> error + sampler_state" where
  "outer_body E cfg A idx X mv sigmas step st =
     (let st1 = (if step mod log_interval cfg = 0
                 then st\<lparr>info_log := info_log st @ [BatchStep idx step]\<rparr> else st)
      in bindE (labels_at (xt st1) step) (\<lambda>labels.
         bindE (step_size_at cfg sigmas step) (\<lambda>step_size.
           inner_loop E cfg A X mv step_size labels (nat (inner_count cfg step)) st1)))"

text \<open>Lines 69 to 71: the loop over \<open>range(num_classes)\<close>, with its skip.\<close>

fun outer_loop ::
    "env \<Rightarrow> config \<Rightarrow> args \<Rightarrow> nat \<Rightarrow> batch \<Rightarrow> cfl tensor \<Rightarrow> real list \<Rightarrow> int list \<Rightarrow> sampler_state
     \<Rightarrow> error + sampler_state" where
  "outer_loop E cfg A idx X mv sigmas [] st = Inr st"
| "outer_loop E cfg A idx X mv sigmas (step # steps) st =
     (if step \<le> start_iter cfg then outer_loop E cfg A idx X mv sigmas steps st
      else bindE (outer_body E cfg A idx X mv sigmas step st)
                 (outer_loop E cfg A idx X mv sigmas steps))"

text \<open>Lines 66 to 97: the candidate is drawn, then annealed.\<close>

definition initial_candidate :: "env \<Rightarrow> config \<Rightarrow> sampler_state \<Rightarrow> sampler_state" where
  "initial_candidate E cfg st =
     st\<lparr>xt := randn_tensor E (rng st)
                 [batch_size cfg, 2, fst (image_size cfg), snd (image_size cfg)],
        rng := Suc (rng st)\<rparr>"

definition langevin ::
    "env \<Rightarrow> config \<Rightarrow> args \<Rightarrow> nat \<Rightarrow> batch \<Rightarrow> cfl tensor \<Rightarrow> real list \<Rightarrow> sampler_state
     \<Rightarrow> error + sampler_state" where
  "langevin E cfg A idx X mv sigmas st =
     outer_loop E cfg A idx X mv sigmas (py_range (num_classes cfg)) (initial_candidate E cfg st)"

text \<open>Running a body over a list of steps, none skipped.\<close>

fun run_steps :: "(int \<Rightarrow> 's \<Rightarrow> error + 's) \<Rightarrow> int list \<Rightarrow> 's \<Rightarrow> error + 's" where
  "run_steps body [] st = Inr st"
| "run_steps body (k # ks) st = bindE (body k st) (run_steps body ks)"

section \<open>From the candidate to the displayed image\<close>

text \<open>\<open>t.permute(0, 2, 3, 1)\<close>.\<close>

definition permute_0231 :: "'a tensor \<Rightarrow> error + 'a tensor" where
  "permute_0231 x =
     (case shape x of
        [a, b, c, d] \<Rightarrow>
          Inr \<lparr>shape = [a, c, d, b],
               elem = (\<lambda>idx. case idx of [i, j, k, l] \<Rightarrow> elem x [i, l, j, k] | _ \<Rightarrow> elem x idx)\<rparr>
      | _ \<Rightarrow> Inl ShapeError)"

text \<open>Row-major position of a multi-index, and back.\<close>

definition ravel :: "nat list \<Rightarrow> nat list \<Rightarrow> nat" where
  "ravel s idx = foldl (\<lambda>acc (d, i). acc * d + i) 0 (zip s idx)"

fun unravel :: "nat list \<Rightarrow> nat \<Rightarrow> nat list" where
  "unravel [] n = []"
| "unravel (d # ds) n = (n div prod_list ds) # unravel ds (n mod prod_list ds)"

text \<open>\<open>t.reshape(-1, H, W, 2)\<close>: the first size is inferred from the number of entries.\<close>

definition reshape_hw2 :: "nat \<times> nat \<Rightarrow> 'a tensor \<Rightarrow> error + 'a tensor" where
  "reshape_hw2 hw x =
     (let n = prod_list (shape x); m = fst hw * snd hw * 2
      in if m = 0 \<or> n mod m \<noteq> 0 then Inl ShapeError
         else Inr \<lparr>shape = [n div m, fst hw, snd hw, 2],
                   elem = (\<lambda>idx. elem x (unravel (shape x)
                                     (ravel [n div m, fst hw, snd hw, 2] idx)))\<rparr>)"

definition view_as_complex :: "fl tensor \<Rightarrow> error + cfl tensor" where
  "view_as_complex x =
     (if shape x \<noteq> [] \<and> last (shape x) = 2
      then Inr \<lparr>shape = butlast (shape x),
                elem = (\<lambda>idx. (elem x (idx @ [0]), elem x (idx @ [1])))\<rparr>
      else Inl ShapeError)"

text \<open>\<open>t.flip(-2)\<close>: the axis before the last is reversed.\<close>

definition flip2 :: "'a tensor \<Rightarrow> error + 'a tensor" where
  "flip2 x =
     (let r = length (shape x)
      in if r < 2 then Inl IndexError
         else Inr \<lparr>shape = shape x,
                   elem = (\<lambda>idx. elem x (idx[r - 2 := shape x ! (r - 2) - 1 - idx ! (r - 2)]))\<rparr>)"

text \<open>Lines 100 to 103.\<close>

definition to_display :: "config \<Rightarrow> fl tensor \<Rightarrow> error + fl tensor" where
  "to_display cfg x =
     bindE (permute_0231 x) (\<lambda>p.
     bindE (reshape_hw2 (image_size cfg) p) (\<lambda>r.
     bindE (view_as_complex r) (\<lambda>c.
       flip2 (tmap cabs c))))"

text \<open>
  Lines 56 to 103 for one batch: the reference is estimated, the candidate is sampled and
  scaled by \<open>normalize\<close> with the estimated reference, and becomes the magnitude image.
  The result keeps the sampler's state for the next batch.
\<close>

definition reconstruct ::
    "env \<Rightarrow> config \<Rightarrow> args \<Rightarrow> nat \<Rightarrow> batch \<Rightarrow> real list \<Rightarrow> sampler_state
     \<Rightarrow> error + (fl tensor \<times> sampler_state)" where
  "reconstruct E cfg A idx X sigmas st =
     (let estimated_mvue = get_mvue E (ground_truth X) (maps X)
      in bindE (langevin E cfg A idx X estimated_mvue sigmas st) (\<lambda>s.
         bindE (to_display cfg (normalize E (xt s) estimated_mvue)) (\<lambda>d.
           Inr (d, s))))"

section \<open>The edit step\<close>

fun fle :: "fl \<Rightarrow> fl \<Rightarrow> bool" where
  "fle (Fin a) (Fin b) = (a \<le> b)"
| "fle _ _ = False"

fun fmax :: "fl \<Rightarrow> fl \<Rightarrow> fl" where
  "fmax (Fin a) (Fin b) = Fin (max a b)"
| "fmax _ _ = NaN"

text \<open>The maximum of all entries; the maximum of no entry is an error.\<close>

definition tmax :: "fl tensor \<Rightarrow> error + fl" where
  "tmax t =
     (case map (elem t) (indices (shape t)) of
        [] \<Rightarrow> Inl ValueError
      | v # vs \<Rightarrow> Inr (foldl fmax v vs))"

definition select0 :: "nat \<Rightarrow> 'a tensor \<Rightarrow> error + 'a tensor" where
  "select0 i x =
     (case shape x of
        [] \<Rightarrow> Inl IndexError
      | b # rest \<Rightarrow>
          if i < b then Inr \<lparr>shape = rest, elem = (\<lambda>idx. elem x (i # idx))\<rparr>
          else Inl IndexError)"

definition unsqueeze0 :: "'a tensor \<Rightarrow> 'a tensor" where
  "unsqueeze0 x = \<lparr>shape = 1 # shape x, elem = (\<lambda>idx. elem x (tl idx))\<rparr>"

text \<open>\<open>t.squeeze()\<close> drops every axis of size 1.\<close>

fun expand_index :: "nat list \<Rightarrow> nat list \<Rightarrow> nat list" where
  "expand_index [] idx = []"
| "expand_index (d # ds) idx =
     (if d = 1 then 0 # expand_index ds idx
      else (case idx of [] \<Rightarrow> 0 # expand_index ds []
            | i # r \<Rightarrow> i # expand_index ds r))"

definition squeeze :: "'a tensor \<Rightarrow> 'a tensor" where
  "squeeze x = \<lparr>shape = filter (\<lambda>d. d \<noteq> 1) (shape x),
               elem = (\<lambda>idx. elem x (expand_index (shape x) idx))\<rparr>"

definition threshold :: "fl \<Rightarrow> fl tensor \<Rightarrow> fl tensor" where
  "threshold thr t = tmap (\<lambda>v. if fle v thr then Fin 0 else v) t"

text \<open>
  \<open>astype(np.uint8)\<close> truncates towards zero. Outside 0 to 255 the conversion is left
  open by C; the model wraps modulo 256 and sends NaN to 0.
\<close>

fun astype_uint8 :: "fl \<Rightarrow> 8 word" where
  "astype_uint8 (Fin r) = word_of_int (if 0 \<le> r then \<lfloor>r\<rfloor> else \<lceil>r\<rceil>)"
| "astype_uint8 NaN = 0"

text \<open>Lines 142 to 144, and 145 to 147.\<close>

definition to_uint8_image :: "fl tensor \<Rightarrow> error + 8 word tensor" where
  "to_uint8_image img =
     (let a = squeeze img
      in bindE (tmax a) (\<lambda>m.
           Inr (tmap (\<lambda>v. astype_uint8 (fmul v (fdiv (Fin 255) m))) a)))"

text \<open>
  \<open>cv2.circle(mask, (cx, cy), r, 255, -1)\<close> paints a filled circle, pixels at distance
  at most \<open>r\<close> from the centre; the model paints the closed disc, all pixels \<open>(x, y)\<close> at
  distance at most \<open>r\<close> from the centre.
\<close>

definition cv2_circle :: "int \<times> int \<Rightarrow> int \<Rightarrow> int \<Rightarrow> int \<Rightarrow> 8 word" where
  "cv2_circle c r x y = (if (x - fst c)\<^sup>2 + (y - snd c)\<^sup>2 \<le> r\<^sup>2 then 255 else 0)"

text \<open>
  Lines 150 to 152. OpenCV takes the array as a single-channel image, which is a
  two-dimensional array; \<open>bitwise_and\<close> with a mask leaves 0 where the mask is 0.
\<close>

definition circle_masking :: "8 word tensor \<Rightarrow> error + 8 word tensor" where
  "circle_masking img =
     (case shape img of
        [h, w] \<Rightarrow>
          Inr \<lparr>shape = [h, w],
               elem = (\<lambda>idx. case idx of
                         [y, x] \<Rightarrow> if cv2_circle (192, 192) 165 (int x) (int y) \<noteq> 0
                                   then and (elem img idx) (elem img idx) else 0
                       | _ \<Rightarrow> 0)\<rparr>
      | _ \<Rightarrow> Inl ValueError)"

text \<open>Lines 149 to 152: the masking step.\<close>

definition masking_step :: "config \<Rightarrow> 8 word tensor \<Rightarrow> error + 8 word tensor" where
  "masking_step cfg recon_np = (if circle_mask cfg then circle_masking recon_np else Inr recon_np)"

text \<open>Lines 138 to 140: both images are thresholded at 5 percent of the peak of the original.\<close>

definition denoise :: "config \<Rightarrow> fl tensor \<Rightarrow> fl tensor \<Rightarrow> error + (fl tensor \<times> fl tensor)" where
  "denoise cfg orig_img recon_img =
     (if denoise_005 cfg
      then bindE (tmax orig_img) (\<lambda>m.
             let thr = fmul (Fin (5 / 100)) m
             in Inr (threshold thr orig_img, threshold thr recon_img))
      else Inr (orig_img, recon_img))"

text \<open>
  \<open>edit\<close>. The arrays are copies of the tensors (the tensors are on the accelerator, and
  \<open>cpu()\<close> copies them), so the scaling to 8 bits leaves the tensors returned as they are.
\<close>

definition edit ::
    "config \<Rightarrow> fl tensor \<Rightarrow> fl tensor
     \<Rightarrow> error + (fl tensor \<times> fl tensor \<times> 8 word tensor \<times> 8 word tensor)" where
  "edit cfg orig_img recon_img =
     bindE (denoise cfg orig_img recon_img) (\<lambda>(orig_th, recon_th).
     bindE (to_uint8_image orig_th) (\<lambda>orig_np.
     bindE (to_uint8_image recon_th) (\<lambda>recon_np.
     bindE (masking_step cfg recon_np) (\<lambda>masked.
       Inr (orig_th, recon_th, orig_np, masked)))))"

section \<open>Metrics and files\<close>

definition digit_char :: "nat \<Rightarrow> char" where
  "digit_char n = ''0123456789'' ! (n mod 10)"

function str_nat :: "nat \<Rightarrow> string" where
  "str_nat n = (if n < 10 then [digit_char n] else str_nat (n div 10) @ [digit_char (n mod 10)])"
  by pat_completeness auto
termination
  by (relation "measure id") auto

definition str_int :: "int \<Rightarrow> string" where
  "str_int i = (if i < 0 then CHR ''-'' # str_nat (nat (- i)) else str_nat (nat i))"

text \<open>\<open>os.path.join\<close> of two parts.\<close>

definition path_join :: "string \<Rightarrow> string \<Rightarrow> string" where
  "path_join a b =
     (if b \<noteq> [] \<and> hd b = CHR ''/'' then b
      else if a = [] \<or> last a = CHR ''/'' then a @ b
      else a @ ''/'' @ b)"

text \<open>Lines 107 to 110.\<close>

definition slice_images ::
    "config \<Rightarrow> batch \<Rightarrow> fl tensor \<Rightarrow> nat
     \<Rightarrow> error + (fl tensor \<times> fl tensor \<times> 8 word tensor \<times> 8 word tensor)" where
  "slice_images cfg X disp i =
     bindE (select0 i disp) (\<lambda>r.
     bindE (select0 i (mvue X)) (\<lambda>m.
     bindE (flip2 (tmap cabs m)) (\<lambda>orig_img.
       edit cfg orig_img (unsqueeze0 r))))"

text \<open>
  Line 121, \<open>Image.fromarray\<close>: Pillow reads an array of bytes of one or two dimensions
  as a greyscale image, and one of three dimensions with 2, 3 or 4 channels as an image
  with these channels. An array of no dimension has no height, and reading it raises
  \<open>IndexError\<close>; any other array raises \<open>TypeError\<close>. Line 129 writes a JPEG file, which
  holds a greyscale or an RGB image and no other.
\<close>

datatype pil_mode = ModeL | ModeLA | ModeRGB | ModeRGBA

definition fromarray_mode :: "nat list \<Rightarrow> error + pil_mode" where
  "fromarray_mode s =
     (case s of
        [] \<Rightarrow> Inl IndexError
      | [n] \<Rightarrow> Inr ModeL
      | [h, w] \<Rightarrow> Inr ModeL
      | [h, w, c] \<Rightarrow>
          if c = 2 then Inr ModeLA else if c = 3 then Inr ModeRGB
          else if c = 4 then Inr ModeRGBA else Inl TypeError
      | _ \<Rightarrow> Inl TypeError)"

fun writes_jpeg :: "pil_mode \<Rightarrow> bool" where
  "writes_jpeg ModeL = True"
| "writes_jpeg ModeRGB = True"
| "writes_jpeg ModeLA = False"
| "writes_jpeg ModeRGBA = False"

text \<open>
  Lines 117 to 129: the two images of a slice are saved. Nothing catches a failure: the
  first operation that fails ends the call, with what was written before it. The
  operations that can fail are, in this order, the look-up of the slice's number, the
  writing of the original image, the reading of the array by Pillow, the loading of the
  font, and the writing of the annotated image.
\<close>

definition save_slice ::
    "env \<Rightarrow> config \<Rightarrow> args \<Rightarrow> batch \<Rightarrow> nat \<Rightarrow> fl tensor \<Rightarrow> 8 word tensor \<Rightarrow> fl \<Rightarrow> fl \<Rightarrow> results
     \<Rightarrow> error option \<times> results" where
  "save_slice E cfg A X i orig_th recon_np ssim_score psnr_score res =
     (case py_index (slice_idx X) (int i) of
        Inl e \<Rightarrow> (Some e, res)
      | Inr sl \<Rightarrow>
          let or_name = path_join (log_path A) (anatomy cfg @ ''_'' @ str_int sl @ ''_or.jpg'')
          in if \<not> write_ok E (length (written res)) or_name then (Some IOError, res)
             else
               let res1 = res\<lparr>written := written res @ [(or_name, TensorImage orig_th)]\<rparr>;
                   file_name = path_join (log_path A) (anatomy cfg @ ''_'' @ str_int sl @ ''.jpg'')
               in (case fromarray_mode (shape recon_np) of
                     Inl e \<Rightarrow> (Some e, res1)
                   | Inr m \<Rightarrow>
                       if \<not> font_available E then (Some IOError, res1)
                       else if \<not> writes_jpeg m then (Some IOError, res1)
                       else if \<not> write_ok E (length (written res1)) file_name
                       then (Some IOError, res1)
                       else (None, res1\<lparr>written := written res1 @
                               [(file_name, AnnotatedImage recon_np ssim_score psnr_score)]\<rparr>)))"

text \<open>Lines 107 to 129: one slice of the batch.\<close>

definition process_slice ::
    "env \<Rightarrow> config \<Rightarrow> args \<Rightarrow> batch \<Rightarrow> fl tensor \<Rightarrow> nat \<Rightarrow> results \<Rightarrow> error option \<times> results" where
  "process_slice E cfg A X disp i res =
     (case slice_images cfg X disp i of
        Inl e \<Rightarrow> (Some e, res)
      | Inr (orig_th, recon_th, orig_np, recon_np) \<Rightarrow>
          (case ssim E orig_np recon_np of
             Inl e \<Rightarrow> (Some e, res)
           | Inr ssim_score \<Rightarrow>
               (case psnr E orig_np recon_np of
                  Inl e \<Rightarrow> (Some e, res)
                | Inr psnr_score \<Rightarrow>
                    let res1 = res\<lparr>ssim_scores := ssim_scores res @ [ssim_score],
                                   psnr_scores := psnr_scores res @ [psnr_score]\<rparr>
                    in if save_images A
                       then save_slice E cfg A X i orig_th recon_np ssim_score psnr_score res1
                       else (None, res1))))"

fun slices_loop ::
    "env \<Rightarrow> config \<Rightarrow> args \<Rightarrow> batch \<Rightarrow> fl tensor \<Rightarrow> nat list \<Rightarrow> results \<Rightarrow> error option \<times> results" where
  "slices_loop E cfg A X disp [] res = (None, res)"
| "slices_loop E cfg A X disp (i # rest) res =
     (case process_slice E cfg A X disp i res of
        (Some e, res') \<Rightarrow> (Some e, res')
      | (None, res') \<Rightarrow> slices_loop E cfg A X disp rest res')"

text \<open>Lines 131 to 134.\<close>

definition write_stats :: "env \<Rightarrow> args \<Rightarrow> results \<Rightarrow> error option \<times> results" where
  "write_stats E A res =
     (let stats_file = path_join (log_path A) ''stats.json''
      in if write_ok E (length (written res)) stats_file
         then (None, res\<lparr>written := written res @
                 [(stats_file, StatsJson (ssim_scores res) (psnr_scores res))]\<rparr>)
         else (Some IOError, res))"

text \<open>Lines 54 to 129: the loop over the batches of the data loader.\<close>

fun batches_loop ::
    "env \<Rightarrow> config \<Rightarrow> args \<Rightarrow> real list \<Rightarrow> nat \<Rightarrow> batch list \<Rightarrow> sampler_state \<Rightarrow> results
     \<Rightarrow> error option \<times> results" where
  "batches_loop E cfg A sigmas idx [] st res = (None, res)"
| "batches_loop E cfg A sigmas idx (X # rest) st res =
     (case reconstruct E cfg A idx X sigmas st of
        Inl e \<Rightarrow> (Some e, res)
      | Inr (disp, st') \<Rightarrow>
          (case slices_loop E cfg A X disp [0..<batch_size cfg] res of
             (Some e, res') \<Rightarrow> (Some e, res')
           | (None, res') \<Rightarrow> batches_loop E cfg A sigmas (Suc idx) rest st' res'))"

text \<open>
  \<open>guided_LD.sample\<close>, from the loaded score network on. The result is the error raised,
  if any, and what outlives the call.
\<close>

definition sample ::
    "env \<Rightarrow> config \<Rightarrow> args \<Rightarrow> batch list \<Rightarrow> sampler_state \<Rightarrow> results \<Rightarrow> error option \<times> results" where
  "sample E cfg A dataloader st res =
     (let sigmas = get_sigmas E cfg;
          st1 = st\<lparr>info_log := info_log st @ [TotalBatches (length dataloader)]\<rparr>
      in case batches_loop E cfg A sigmas 0 dataloader st1 res of
           (Some e, res') \<Rightarrow> (Some e, res')
         | (None, res') \<Rightarrow> write_stats E A res')"

section \<open>Contracts of the collaborators, and example inputs\<close>

text \<open>
  The contract of the collaborators on shapes, for a batch of \<open>B\<close> images of \<open>H\<close> by \<open>W\<close>
  pixels measured by \<open>C\<close> coils: the score network and the two scalings return a tensor of
  the shape of the candidate, the forward operator returns one k-space image per coil, the
  inverse transform keeps the shape, and the ground truth and the sensitivity maps have one
  image per coil.
\<close>

definition collaborators_ok ::
    "env \<Rightarrow> args \<Rightarrow> batch \<Rightarrow> cfl tensor \<Rightarrow> nat \<Rightarrow> nat \<Rightarrow> nat \<Rightarrow> nat \<Rightarrow> bool" where
  "collaborators_ok E A X mv B C H W \<longleftrightarrow>
     (\<forall>x l. shape x = [B, 2, H, W] \<longrightarrow> shape (score E x l) = [B, 2, H, W]) \<and>
     (\<forall>x. shape x = [B, 2, H, W] \<longrightarrow> shape (normalize E x mv) = [B, 2, H, W]) \<and>
     (\<forall>x. shape x = [B, 2, H, W] \<longrightarrow> shape (unnormalize E x mv) = [B, 2, H, W]) \<and>
     (\<forall>c. shape c = [B, H, W] \<longrightarrow>
          shape (MulticoilForwardMRI E (orientation A) c (maps X) (mask X)) = [B, C, H, W]) \<and>
     (\<forall>k. shape k = [B, C, H, W] \<longrightarrow> shape (ifft E k) = [B, C, H, W]) \<and>
     shape (ground_truth X) = [B, C, H, W] \<and> shape (maps X) = [B, C, H, W]"

definition score_queries :: "error + sampler_state \<Rightarrow> nat option" where
  "score_queries r = (case r of Inl e \<Rightarrow> None | Inr s \<Rightarrow> Some (length (score_log s)))"

definition const_tensor :: "nat list \<Rightarrow> 'a \<Rightarrow> 'a tensor" where
  "const_tensor s v = \<lparr>shape = s, elem = (\<lambda>idx. v)\<rparr>"

text \<open>
  Stand-ins for the collaborators: a score network that returns zeros, a forward operator
  that weights the image by each coil's sensitivity map and applies no transform, the
  identity for the inverse transform and for the two scalings, a noise schedule that counts
  down to 1, and a generator that draws the constant 1.
\<close>

definition stub_forward :: "string \<Rightarrow> cfl tensor \<Rightarrow> cfl tensor \<Rightarrow> fl tensor \<Rightarrow> cfl tensor" where
  "stub_forward orient c mp mk =
     \<lparr>shape = shape mp,
      elem = (\<lambda>idx. case idx of b # ch # r \<Rightarrow> cmul (elem c (b # r)) (elem mp idx)
                     | _ \<Rightarrow> (Fin 0, Fin 0))\<rparr>"

definition stub_env :: env where
  "stub_env =
     \<lparr>score = (\<lambda>x l. tmap (\<lambda>v. Fin 0) x),
      MulticoilForwardMRI = stub_forward,
      ifft = (\<lambda>k. k),
      normalize = (\<lambda>x m. x),
      unnormalize = (\<lambda>x m. x),
      get_mvue = (\<lambda>r m. r),
      get_sigmas = (\<lambda>cfg. map real_of_int (rev [1..num_classes cfg])),
      randn = (\<lambda>k idx. 1),
      ssim = (\<lambda>a b. Inr (Fin 1)),
      psnr = (\<lambda>a b. Inr (Fin 1)),
      write_ok = (\<lambda>n p. True),
      font_available = True\<rparr>"

text \<open>The end-to-end scenario: ten noise levels, the first five and one more skipped.\<close>

definition e2e_cfg :: config where
  "e2e_cfg =
     \<lparr>num_classes = 10, start_iter = 5, n_steps_each = 1, step_lr = 1, mse = 1,
      batch_size = 1, image_size = (8, 8), anatomy = ''brain'',
      denoise_005 = False, circle_mask = False\<rparr>"

definition e2e_args :: args where
  "e2e_args = \<lparr>orientation = ''vertical'', log_path = ''logs'', save_images = False\<rparr>"

definition e2e_batch :: batch where
  "e2e_batch =
     \<lparr>ground_truth = const_tensor [1, 1, 8, 8] (Fin 0, Fin 0),
      mvue = const_tensor [1, 1, 8, 8] (Fin 0, Fin 0),
      maps = const_tensor [1, 1, 8, 8] (Fin 1, Fin 0),
      mask = const_tensor [8, 8] (Fin 1),
      slice_idx = [0]\<rparr>"

definition e2e_mvue :: "cfl tensor" where
  "e2e_mvue = get_mvue stub_env (ground_truth e2e_batch) (maps e2e_batch)"

definition e2e_sigmas :: "real list" where
  "e2e_sigmas = [10, 9, 8, 7, 6, 5, 4, 3, 2, 1]"

definition start_state :: sampler_state where
  "start_state = \<lparr>xt = const_tensor [] (Fin 0), rng = 0, score_log = [], info_log = []\<rparr>"

text \<open>Two small tensors: a gradient of norm 5 and a prior gradient of norm 2.\<close>

definition ex_g :: "fl tensor" where
  "ex_g = \<lparr>shape = [2], elem = (\<lambda>idx. if idx = [0] then Fin 3 else Fin 4)\<rparr>"

definition ex_p :: "fl tensor" where
  "ex_p = const_tensor [1] (Fin 2)"

text \<open>
  A batch whose ground truth is what the stand-in forward operator measures on the first
  candidate drawn: one image of one pixel, one coil, two noise levels.
\<close>

definition nan_cfg :: config where
  "nan_cfg =
     \<lparr>num_classes = 2, start_iter = 0, n_steps_each = 1, step_lr = 1, mse = 1,
      batch_size = 1, image_size = (1, 1), anatomy = ''brain'',
      denoise_005 = False, circle_mask = False\<rparr>"

definition nan_batch :: batch where
  "nan_batch =
     \<lparr>ground_truth = const_tensor [1, 1, 1, 1] (Fin 1, Fin 1),
      mvue = const_tensor [1, 1, 1, 1] (Fin 1, Fin 1),
      maps = const_tensor [1, 1, 1, 1] (Fin 1, Fin 0),
      mask = const_tensor [1, 1] (Fin 1),
      slice_idx = [0]\<rparr>"

definition nan_mvue :: "cfl tensor" where
  "nan_mvue = get_mvue stub_env (ground_truth nan_batch) (maps nan_batch)"

text \<open>
  Modelled from the spec: \<open>normalize\<close> and \<open>unnormalize\<close> are functions of the module
  \<open>datasets.utils\<close>, not of the sampler's module. The spec has them convert between the
  scale of the candidate and the scale of the measurements "using the batch's estimated
  reference"; this instance multiplies, respectively divides, by the largest magnitude of
  the reference.
\<close>

definition reference_scale :: "cfl tensor \<Rightarrow> fl" where
  "reference_scale m = (case tmax (tmap cabs m) of Inl e \<Rightarrow> NaN | Inr v \<Rightarrow> v)"

definition scale_normalize :: "fl tensor \<Rightarrow> cfl tensor \<Rightarrow> fl tensor" where
  "scale_normalize x m = tmap (\<lambda>v. fmul v (reference_scale m)) x"

definition scale_unnormalize :: "fl tensor \<Rightarrow> cfl tensor \<Rightarrow> fl tensor" where
  "scale_unnormalize x m = tmap (\<lambda>v. fdiv v (reference_scale m)) x"

definition scaled_env :: env where
  "scaled_env = stub_env\<lparr>normalize := scale_normalize, unnormalize := scale_unnormalize\<rparr>"

text \<open>A reference of magnitude 2 and a candidate of one pixel.\<close>

definition ex_mvue :: "cfl tensor" where
  "ex_mvue = const_tensor [1] (Fin 2, Fin 0)"

definition ex_xt :: "fl tensor" where
  "ex_xt = const_tensor [1, 2, 1, 1] (Fin 1)"

text \<open>An image of two by two pixels, and the scenario with the circular mask switched on.\<close>

definition ex_img :: "fl tensor" where
  "ex_img = const_tensor [1, 2, 2] (Fin 1)"

definition mask_cfg :: config where
  "mask_cfg = e2e_cfg\<lparr>circle_mask := True\<rparr>"

text \<open>
  Saving switched on, with a file system that takes every write: once with the font of
  line 124 in place, once without it.
\<close>

definition save_args :: args where
  "save_args = e2e_args\<lparr>save_images := True\<rparr>"

definition nofont_env :: env where
  "nofont_env = stub_env\<lparr>font_available := False\<rparr>"

definition no_results :: results where
  "no_results = \<lparr>ssim_scores = [], psnr_scores = [], written = []\<rparr>"

fun is_stats :: "file_content \<Rightarrow> bool" where
  "is_stats (StatsJson a b) = True"
| "is_stats _ = False"

text \<open>
  The files of a list were taken by the file system, each at its place in the order of
  writing, the first of them after \<open>n\<close> files.
\<close>

fun writes_ok :: "env \<Rightarrow> nat \<Rightarrow> (string \<times> file_content) list \<Rightarrow> bool" where
  "writes_ok E n [] = True"
| "writes_ok E n (w # ws) = (write_ok E n (fst w) \<and> writes_ok E (Suc n) ws)"

text \<open>
  What the processing of \<open>n\<close> slices does to the results: it writes images that the file
  system took and no statistics; when nothing raises, it appends \<open>n\<close> scores to each list
  and, when saving is on, writes two images a slice, for which the font was there; when
  saving is on and the font is not there, it writes one file at most and appends one score
  at most to each list.
\<close>

definition saved_effect :: "env \<Rightarrow> args \<Rightarrow> nat \<Rightarrow> results \<Rightarrow> error option \<Rightarrow> results \<Rightarrow> bool" where
  "saved_effect E A n res err res' \<longleftrightarrow>
     (\<exists>ws. written res' = written res @ ws \<and> list_all (\<lambda>f. \<not> is_stats (snd f)) ws \<and>
           writes_ok E (length (written res)) ws \<and>
           (err = None \<longrightarrow>
              length (ssim_scores res') = length (ssim_scores res) + n \<and>
              length (psnr_scores res') = length (psnr_scores res) + n \<and>
              length ws = (if save_images A then 2 * n else 0) \<and>
              (save_images A \<and> 0 < n \<longrightarrow> font_available E)) \<and>
           (save_images A \<and> \<not> font_available E \<longrightarrow>
              length ws \<le> 1 \<and>
              length (ssim_scores res') \<le> length (ssim_scores res) + 1 \<and>
              length (psnr_scores res') \<le> length (psnr_scores res) + 1))"

text \<open>
  A scenario in which both gradients count: a score network that answers the label plus 2
  in every entry, a mixing weight of 2, a base step size of one half, one image of one by
  two pixels, a ground truth of zeros and two noise levels.
\<close>

definition grad_env :: env where
  "grad_env = stub_env\<lparr>score := (\<lambda>x l. tmap (\<lambda>v. Fin (real_of_int (sum_list l) + 2)) x)\<rparr>"

definition grad_cfg :: config where
  "grad_cfg =
     \<lparr>num_classes = 2, start_iter = 0, n_steps_each = 1, step_lr = 1 / 2, mse = 2,
      batch_size = 1, image_size = (1, 2), anatomy = ''brain'',
      denoise_005 = False, circle_mask = False\<rparr>"

definition grad_batch :: batch where
  "grad_batch =
     \<lparr>ground_truth = const_tensor [1, 1, 1, 2] (Fin 0, Fin 0),
      mvue = const_tensor [1, 1, 1, 2] (Fin 0, Fin 0),
      maps = const_tensor [1, 1, 1, 2] (Fin 1, Fin 0),
      mask = const_tensor [1, 2] (Fin 1),
      slice_idx = [0]\<rparr>"

definition grad_mvue :: "cfl tensor" where
  "grad_mvue = get_mvue grad_env (ground_truth grad_batch) (maps grad_batch)"

section \<open>Shapes\<close>

lemma bshape_rev_same: "bshape_rev xs xs = Some xs"
  by (induction xs) (simp_all add: bdim_def)

lemma broadcast_shapes_same: "broadcast_shapes s s = Some s"
  by (simp add: broadcast_shapes_def bshape_rev_same)

lemma bproj_valid: "valid_index s idx \<Longrightarrow> bproj s idx = idx"
proof -
  assume "valid_index s idx"
  then have l: "list_all2 (<) idx s" by (simp add: valid_index_def)
  then have len: "length idx = length s" by (rule list_all2_lengthD)
  from l have "map2 (\<lambda>d i. if d = 1 then 0 else i) s idx = idx"
    by (induction idx s rule: list_all2_induct) auto
  then show ?thesis by (simp add: bproj_def len)
qed

lemma tbinop_same:
  "shape a = shape b \<Longrightarrow>
   tbinop f a b = Inr \<lparr>shape = shape a,
                       elem = (\<lambda>idx. f (elem a (bproj (shape a) idx)) (elem b (bproj (shape a) idx)))\<rparr>"
  by (simp add: tbinop_def broadcast_shapes_same)

lemma tbinop_shape:
  "shape a = s \<Longrightarrow> shape b = s \<Longrightarrow> \<exists>r. tbinop f a b = Inr r \<and> shape r = s \<and>
     (\<forall>idx. valid_index s idx \<longrightarrow> elem r idx = f (elem a idx) (elem b idx))"
  by (simp add: tbinop_same bproj_valid)

lemma shape_tmap [simp]: "shape (tmap f t) = shape t"
  by (simp add: tmap_def)

lemma elem_tmap [simp]: "elem (tmap f t) idx = f (elem t idx)"
  by (simp add: tmap_def)

lemma shape_match_norm [simp]: "shape (match_norm g p) = shape g"
  by (simp add: match_norm_def)

lemma shape_weighted [simp]: "shape (weighted cfg g) = shape g"
  by (simp add: weighted_def)

lemma shape_scaled_noise [simp]: "shape (scaled_noise E ss st) = shape (xt st)"
  by (simp add: scaled_noise_def randn_tensor_def)

lemma elem_scaled_noise:
  "elem (scaled_noise E ss st) idx = fmul (Fin (randn E (rng st) idx)) (fsqrt (fmul ss (Fin 2)))"
  by (simp add: scaled_noise_def randn_tensor_def)

lemma forward_operator_ok:
  assumes "collaborators_ok E A X mv B C H W" "shape x = [B, 2, H, W]"
  shows "\<exists>m. forward_operator E A X x = Inr m \<and> shape m = [B, C, H, W]"
proof -
  obtain re where re: "select1 0 x = Inr re" "shape re = [B, H, W]"
    using assms(2) by (simp add: select1_def)
  obtain im where im: "select1 1 x = Inr im" "shape im = [B, H, W]"
    using assms(2) by (simp add: select1_def)
  obtain c where c: "tbinop Pair re im = Inr c" "shape c = [B, H, W]"
    using tbinop_shape [OF re(2) im(2)] by blast
  show ?thesis
    using assms(1) re im c by (simp add: forward_operator_def bindE_def collaborators_ok_def)
qed

lemma dc_gradient_ok:
  assumes ok: "collaborators_ok E A X mv B C H W" and x: "shape x = [B, 2, H, W]"
  shows "\<exists>g. dc_gradient E A X mv x = Inr g \<and> shape g = [B, 2, H, W]"
proof -
  have nx: "shape (normalize E x mv) = [B, 2, H, W]"
    using ok x by (simp add: collaborators_ok_def)
  obtain meas where meas: "forward_operator E A X (normalize E x mv) = Inr meas"
      "shape meas = [B, C, H, W]"
    using forward_operator_ok [OF ok nx] by blast
  have gt: "shape (ground_truth X) = [B, C, H, W]" and mps: "shape (maps X) = [B, C, H, W]"
    using ok by (simp_all add: collaborators_ok_def)
  obtain resid where resid: "tbinop csub meas (ground_truth X) = Inr resid"
      "shape resid = [B, C, H, W]"
    using tbinop_shape [OF meas(2) gt] by blast
  have fi: "shape (ifft E resid) = [B, C, H, W]"
    using ok resid(2) by (simp add: collaborators_ok_def)
  have cj: "shape (tmap cconj (maps X)) = [B, C, H, W]"
    using mps by simp
  obtain bk where bk: "tbinop cmul (ifft E resid) (tmap cconj (maps X)) = Inr bk"
      "shape bk = [B, C, H, W]"
    using tbinop_shape [OF fi cj] by blast
  obtain summed where summed: "sum_axis1 bk = Inr summed" "shape summed = [B, H, W]"
    using bk(2) by (simp add: sum_axis1_def)
  obtain g where g: "permute_0312 (view_as_real summed) = Inr g" "shape g = [B, 2, H, W]"
    using summed(2) by (simp add: permute_0312_def view_as_real_def)
  have "shape (unnormalize E g mv) = [B, 2, H, W]"
    using ok g(2) by (simp add: collaborators_ok_def)
  then show ?thesis
    using meas resid bk summed g by (simp add: dc_gradient_def measurement_gradient_def bindE_def)
qed

section \<open>One inner iteration\<close>

lemma inner_iteration_ok:
  assumes ok: "collaborators_ok E A X mv B C H W" and sh: "shape (xt st) = [B, 2, H, W]"
  shows "\<exists>g st'. dc_gradient E A X mv (xt st) = Inr g \<and> shape g = [B, 2, H, W] \<and>
           inner_iteration E cfg A X mv ss labels st = Inr st' \<and>
           shape (xt st') = [B, 2, H, W] \<and> rng st' = Suc (rng st) \<and>
           score_log st' = score_log st @ [labels] \<and> info_log st' = info_log st \<and>
           (\<forall>idx. valid_index [B, 2, H, W] idx \<longrightarrow>
              elem (xt st') idx =
                fadd (fadd (elem (xt st) idx)
                           (fmul ss (fsub (elem (score E (xt st) labels) idx)
                                          (elem (weighted cfg (match_norm g (score E (xt st) labels))) idx))))
                     (elem (scaled_noise E ss st) idx))"
proof -
  let ?S = "[B, 2, H, W]"
  let ?p = "score E (xt st) labels"
  obtain g where g: "dc_gradient E A X mv (xt st) = Inr g" "shape g = ?S"
    using dc_gradient_ok [OF ok sh] by blast
  let ?m = "weighted cfg (match_norm g ?p)"
  have p: "shape ?p = ?S" using ok sh by (simp add: collaborators_ok_def)
  have m: "shape ?m = ?S" using g(2) by simp
  obtain d where d: "tbinop fsub ?p ?m = Inr d" "shape d = ?S"
      "\<forall>idx. valid_index ?S idx \<longrightarrow> elem d idx = fsub (elem ?p idx) (elem ?m idx)"
    using tbinop_shape [OF p m] by blast
  have e: "shape (tmap (fmul ss) d) = ?S" using d(2) by simp
  obtain s where s: "tbinop fadd (xt st) (tmap (fmul ss) d) = Inr s" "shape s = ?S"
      "\<forall>idx. valid_index ?S idx \<longrightarrow> elem s idx = fadd (elem (xt st) idx) (elem (tmap (fmul ss) d) idx)"
    using tbinop_shape [OF sh e] by blast
  have n: "shape (scaled_noise E ss st) = ?S" using sh by simp
  obtain x' where x': "tbinop fadd s (scaled_noise E ss st) = Inr x'" "shape x' = ?S"
      "\<forall>idx. valid_index ?S idx \<longrightarrow> elem x' idx = fadd (elem s idx) (elem (scaled_noise E ss st) idx)"
    using tbinop_shape [OF s(2) n] by blast
  have run: "inner_iteration E cfg A X mv ss labels st =
      Inr (st\<lparr>rng := Suc (rng st), score_log := score_log st @ [labels], xt := x'\<rparr>)"
    using g(1) d(1) s(1) x'(1) by (simp add: inner_iteration_def bindE_def Let_def)
  have el: "\<forall>idx. valid_index ?S idx \<longrightarrow> elem x' idx =
      fadd (fadd (elem (xt st) idx) (fmul ss (fsub (elem ?p idx) (elem ?m idx))))
           (elem (scaled_noise E ss st) idx)"
    using d(3) s(3) x'(3) by simp
  show ?thesis
    using g run x'(2) el by simp
qed

lemma inner_iteration_log:
  "inner_iteration E cfg A X mv ss labels st = Inr st' \<Longrightarrow>
   score_log st' = score_log st @ [labels] \<and> rng st' = Suc (rng st) \<and> info_log st' = info_log st"
  by (auto simp: inner_iteration_def bindE_def Let_def split: sum.splits)

section \<open>The loops\<close>

lemma inner_loop_log:
  "inner_loop E cfg A X mv ss labels n st = Inr st' \<Longrightarrow>
   score_log st' = score_log st @ replicate n labels \<and> rng st' = rng st + n"
proof (induction n arbitrary: st)
  case 0
  then show ?case by simp
next
  case (Suc n)
  from Suc.prems obtain s1 where s1: "inner_iteration E cfg A X mv ss labels st = Inr s1"
      "inner_loop E cfg A X mv ss labels n s1 = Inr st'"
    by (auto simp: bindE_def split: sum.splits)
  show ?case
    using inner_iteration_log [OF s1(1)] Suc.IH [OF s1(2)]
    by (simp add: replicate_app_Cons_same)
qed

lemma inner_loop_ok:
  assumes ok: "collaborators_ok E A X mv B C H W"
  shows "shape (xt st) = [B, 2, H, W] \<Longrightarrow>
         \<exists>st'. inner_loop E cfg A X mv ss labels n st = Inr st' \<and> shape (xt st') = [B, 2, H, W]"
proof (induction n arbitrary: st)
  case 0
  then show ?case by simp
next
  case (Suc n)
  obtain s1 where s1: "inner_iteration E cfg A X mv ss labels st = Inr s1"
      "shape (xt s1) = [B, 2, H, W]"
    using inner_iteration_ok [OF ok Suc.prems, of cfg ss labels] by blast
  show ?case using Suc.IH [OF s1(2)] s1(1) by (simp add: bindE_def)
qed

lemma outer_body_log:
  assumes "outer_body E cfg A idx X mv sigmas step st = Inr st'"
  shows "\<exists>labels. score_log st' = score_log st @ replicate (nat (inner_count cfg step)) labels"
proof -
  let ?st1 = "if step mod log_interval cfg = 0
              then st\<lparr>info_log := info_log st @ [BatchStep idx step]\<rparr> else st"
  from assms obtain labels ss where
    r: "inner_loop E cfg A X mv ss labels (nat (inner_count cfg step)) ?st1 = Inr st'"
    by (auto simp: outer_body_def bindE_def Let_def split: sum.splits)
  have "score_log ?st1 = score_log st" by simp
  with inner_loop_log [OF r] show ?thesis by metis
qed

lemma run_steps_queries:
  "run_steps (outer_body E cfg A idx X mv sigmas) steps st = Inr st' \<Longrightarrow>
   length (score_log st') =
     length (score_log st) + sum_list (map (\<lambda>s. nat (inner_count cfg s)) steps)"
proof (induction steps arbitrary: st)
  case Nil
  then show ?case by simp
next
  case (Cons k ks)
  from Cons.prems obtain s1 where s1: "outer_body E cfg A idx X mv sigmas k st = Inr s1"
      "run_steps (outer_body E cfg A idx X mv sigmas) ks s1 = Inr st'"
    by (auto simp: bindE_def split: sum.splits)
  from outer_body_log [OF s1(1)]
  have "length (score_log s1) = length (score_log st) + nat (inner_count cfg k)"
    by auto
  with Cons.IH [OF s1(2)] show ?case by simp
qed

lemma py_index_ok: "0 \<le> i \<Longrightarrow> i < int (length xs) \<Longrightarrow> py_index xs i = Inr (xs ! nat i)"
  by (simp add: py_index_def)

lemma py_index_last: "xs \<noteq> [] \<Longrightarrow> py_index xs (- 1) = Inr (last xs)"
proof -
  assume ne: "xs \<noteq> []"
  then have pos: "1 \<le> int (length xs)"
    by (cases xs) simp_all
  have "nat (int (length xs) + - 1) = length xs - 1"
    by simp
  then show ?thesis using ne pos by (simp add: py_index_def last_conv_nth)
qed

lemma step_size_at_ok:
  "0 \<le> step \<Longrightarrow> step < int (length sigmas) \<Longrightarrow>
   step_size_at cfg sigmas step =
     Inr (fmul (Fin (step_lr cfg))
            (fmul (fdiv (Fin (sigmas ! nat step)) (Fin (last sigmas)))
                  (fdiv (Fin (sigmas ! nat step)) (Fin (last sigmas)))))"
  by (cases "sigmas = []") (simp_all add: step_size_at_def py_index_ok py_index_last bindE_def Let_def)

text \<open>The interval of line 52 is never zero, so line 77 divides by no zero.\<close>

lemma log_interval_pos: "0 < log_interval cfg"
proof -
  have "\<And>t::int. \<not> t < 5 \<Longrightarrow> 0 < t div 5"
    by (simp add: pos_imp_zdiv_pos_iff)
  then show ?thesis by (simp add: log_interval_def Let_def)
qed

lemma outer_body_ok:
  assumes ok: "collaborators_ok E A X mv B C H W" and sh: "shape (xt st) = [B, 2, H, W]"
    and st: "0 \<le> step" "step < int (length sigmas)"
  shows "\<exists>st'. outer_body E cfg A idx X mv sigmas step st = Inr st' \<and> shape (xt st') = [B, 2, H, W]"
proof -
  let ?st1 = "if step mod log_interval cfg = 0
              then st\<lparr>info_log := info_log st @ [BatchStep idx step]\<rparr> else st"
  have sh1: "shape (xt ?st1) = [B, 2, H, W]" using sh by simp
  have lb: "labels_at (xt ?st1) step = Inr (replicate B step)"
    using sh1 by (simp add: labels_at_def)
  obtain ss where ss: "step_size_at cfg sigmas step = Inr ss"
    using step_size_at_ok [OF st] by blast
  obtain st' where "inner_loop E cfg A X mv ss (replicate B step) (nat (inner_count cfg step)) ?st1 = Inr st'"
      "shape (xt st') = [B, 2, H, W]"
    using inner_loop_ok [OF ok sh1] by blast
  then show ?thesis
    using lb ss unfolding outer_body_def Let_def bindE_def by simp
qed

lemma run_steps_ok:
  assumes ok: "collaborators_ok E A X mv B C H W"
  shows "shape (xt st) = [B, 2, H, W] \<Longrightarrow>
     list_all (\<lambda>s. 0 \<le> s \<and> s < int (length sigmas)) steps \<Longrightarrow>
     \<exists>st'. run_steps (outer_body E cfg A idx X mv sigmas) steps st = Inr st' \<and>
           shape (xt st') = [B, 2, H, W]"
proof (induction steps arbitrary: st)
  case Nil
  then show ?case by simp
next
  case (Cons k ks)
  from Cons.prems(2) have k: "0 \<le> k" "k < int (length sigmas)"
    and ks: "list_all (\<lambda>s. 0 \<le> s \<and> s < int (length sigmas)) ks" by simp_all
  obtain s1 where s1: "outer_body E cfg A idx X mv sigmas k st = Inr s1"
      "shape (xt s1) = [B, 2, H, W]"
    using outer_body_ok [OF ok Cons.prems(1) k] by blast
  show ?case using Cons.IH [OF s1(2) ks] s1(1) by (simp add: bindE_def)
qed

lemma filter_upto_gt:
  "filter (\<lambda>s. \<not> s \<le> a) [0..n] = [max 0 (a + 1)..n]"
proof (rule sorted_distinct_set_unique)
  show "sorted (filter (\<lambda>s. \<not> s \<le> a) [0..n])" by (simp add: sorted_wrt_filter)
  show "distinct (filter (\<lambda>s. \<not> s \<le> a) [0..n])" by simp
  show "sorted [max 0 (a + 1)..n]" by simp
  show "distinct [max 0 (a + 1)..n]" by simp
  show "set (filter (\<lambda>s. \<not> s \<le> a) [0..n]) = set [max 0 (a + 1)..n]" by auto
qed

lemma outer_loop_filter:
  "outer_loop E cfg A idx X mv sigmas steps st =
   run_steps (outer_body E cfg A idx X mv sigmas)
     (filter (\<lambda>s. \<not> s \<le> start_iter cfg) steps) st"
proof (induction steps arbitrary: st)
  case Nil
  show ?case by simp
next
  case (Cons step steps)
  show ?case
  proof (cases "step \<le> start_iter cfg")
    case True
    then show ?thesis using Cons.IH by simp
  next
    case False
    then show ?thesis using Cons.IH by (simp add: bindE_def split: sum.splits)
  qed
qed

lemma langevin_steps:
  "langevin E cfg A idx X mv sigmas st =
   run_steps (outer_body E cfg A idx X mv sigmas)
     [max 0 (start_iter cfg + 1)..num_classes cfg - 1] (initial_candidate E cfg st)"
  by (simp add: langevin_def outer_loop_filter py_range_def filter_upto_gt)

lemma langevin_queries:
  assumes "langevin E cfg A idx X mv sigmas st = Inr st'"
  shows "length (score_log st') =
     length (score_log st) +
     sum_list (map (\<lambda>s. nat (inner_count cfg s)) [max 0 (start_iter cfg + 1)..num_classes cfg - 1])"
proof -
  have "score_log (initial_candidate E cfg st) = score_log st"
    by (simp add: initial_candidate_def)
  with run_steps_queries [of E cfg A idx X mv sigmas _ "initial_candidate E cfg st" st'] assms
  show ?thesis by (simp add: langevin_steps)
qed

lemma langevin_ok:
  assumes ok: "collaborators_ok E A X mv (batch_size cfg) C (fst (image_size cfg)) (snd (image_size cfg))"
    and sg: "num_classes cfg \<le> int (length sigmas)"
  shows "\<exists>st'. langevin E cfg A idx X mv sigmas st = Inr st' \<and>
           shape (xt st') = [batch_size cfg, 2, fst (image_size cfg), snd (image_size cfg)]"
proof -
  have sh: "shape (xt (initial_candidate E cfg st)) =
      [batch_size cfg, 2, fst (image_size cfg), snd (image_size cfg)]"
    by (simp add: initial_candidate_def randn_tensor_def)
  have rg: "list_all (\<lambda>s. 0 \<le> s \<and> s < int (length sigmas))
      [max 0 (start_iter cfg + 1)..num_classes cfg - 1]"
    using sg by (auto simp: list_all_iff)
  show ?thesis
    using run_steps_ok [OF ok sh rg] by (simp add: langevin_steps)
qed

lemma stub_env_ok:
  "collaborators_ok stub_env e2e_args e2e_batch e2e_mvue (batch_size e2e_cfg) 1
     (fst (image_size e2e_cfg)) (snd (image_size e2e_cfg))"
  by (simp add: collaborators_ok_def stub_env_def stub_forward_def e2e_batch_def e2e_cfg_def
      const_tensor_def)

section \<open>The steps of the outer loop\<close>

text \<open>
  C5. The loop over \<open>range(num_classes)\<close> does the work of the outer steps from
  \<open>start_iter + 1\<close> (from 0 when that is negative) to \<open>num_classes - 1\<close>, one after the
  other in increasing order, and of no other step: every step up to \<open>start_iter\<close> is
  skipped and leaves the state as it is.
\<close>

theorem outer_loop_visits:
  "outer_loop E cfg A idx X mv sigmas (py_range (num_classes cfg)) st =
     run_steps (outer_body E cfg A idx X mv sigmas)
       [max 0 (start_iter cfg + 1)..num_classes cfg - 1] st
   \<and> sorted_wrt (<) [max 0 (start_iter cfg + 1)..num_classes cfg - 1]
   \<and> list_all (\<lambda>s. start_iter cfg < s \<and> 0 \<le> s \<and> s < num_classes cfg)
        [max 0 (start_iter cfg + 1)..num_classes cfg - 1]"
  by (auto simp: outer_loop_filter filter_upto_gt py_range_def list_all_iff strict_sorted_iff)

text \<open>
  In the end-to-end scenario the loop runs the steps 6 to 9 on the candidate first drawn,
  and returns after twelve queries of the score network.
\<close>

theorem outer_loop_visits_witness:
  "\<exists>st'. outer_loop stub_env e2e_cfg e2e_args 0 e2e_batch e2e_mvue e2e_sigmas
            (py_range (num_classes e2e_cfg)) (initial_candidate stub_env e2e_cfg start_state) = Inr st'
     \<and> run_steps (outer_body stub_env e2e_cfg e2e_args 0 e2e_batch e2e_mvue e2e_sigmas)
          [6, 7, 8, 9] (initial_candidate stub_env e2e_cfg start_state) = Inr st'
     \<and> length (score_log st') = 12"
proof -
  let ?st = "initial_candidate stub_env e2e_cfg start_state"
  have r: "[max 0 (start_iter e2e_cfg + 1)..num_classes e2e_cfg - 1] = [6, 7, 8, 9]"
    by (simp add: e2e_cfg_def upto_rec1)
  have sh: "shape (xt ?st) =
      [batch_size e2e_cfg, 2, fst (image_size e2e_cfg), snd (image_size e2e_cfg)]"
    by (simp add: initial_candidate_def randn_tensor_def)
  have la: "list_all (\<lambda>s. 0 \<le> s \<and> s < int (length e2e_sigmas)) [6, 7, 8, 9]"
    by (simp add: e2e_sigmas_def)
  from run_steps_ok [OF stub_env_ok sh la, of e2e_cfg 0]
  obtain st' where s: "run_steps (outer_body stub_env e2e_cfg e2e_args 0 e2e_batch e2e_mvue e2e_sigmas)
      [6, 7, 8, 9] ?st = Inr st'"
    by blast
  from run_steps_queries [OF s] have n: "length (score_log st') = 12"
    by (simp add: initial_candidate_def start_state_def inner_count_def)
  from outer_loop_visits [of stub_env e2e_cfg e2e_args 0 e2e_batch e2e_mvue e2e_sigmas ?st]
  have "outer_loop stub_env e2e_cfg e2e_args 0 e2e_batch e2e_mvue e2e_sigmas
            (py_range (num_classes e2e_cfg)) ?st = Inr st'"
    unfolding r s by simp
  with s n show ?thesis by blast
qed

lemma e2e_steps: "[max 0 (start_iter e2e_cfg + 1)..num_classes e2e_cfg - 1] = [6, 7, 8, 9]"
  by (simp add: e2e_cfg_def upto_rec1)

text \<open>
  C1, as amended. In the end-to-end scenario (ten noise levels, \<open>start_iter = 5\<close>) a
  run of the sampler that returns does the four outer steps 6, 7, 8 and 9, each with three
  inner iterations, whatever \<open>n_steps_each\<close> says: lines 72 to 75 take three inner
  iterations for every step up to 1800. The score network is queried twelve times.
\<close>

theorem e2e_score_queries:
  assumes nc: "num_classes cfg = 10" and si: "start_iter cfg = 5"
    and run: "langevin E cfg A idx X mv sigmas st = Inr st'"
  shows "langevin E cfg A idx X mv sigmas st =
           run_steps (outer_body E cfg A idx X mv sigmas) [6, 7, 8, 9] (initial_candidate E cfg st)
         \<and> list_all (\<lambda>step. inner_count cfg step = 3) [6, 7, 8, 9]
         \<and> length (score_log st') = length (score_log st) + 12"
proof -
  have steps: "[max 0 (start_iter cfg + 1)..num_classes cfg - 1] = [6, 7, 8, 9]"
    by (simp add: nc si upto_rec1)
  have cnt: "list_all (\<lambda>step. inner_count cfg step = 3) [6, 7, 8, 9]"
    by (simp add: inner_count_def)
  have "length (score_log st') = length (score_log st) + 12"
    using langevin_queries [OF run] by (simp add: steps inner_count_def)
  then show ?thesis
    using cnt by (simp add: langevin_steps steps)
qed

text \<open>
  The claim as stated fails on the scenario itself, run with the stand-ins: the score
  network is queried twelve times, not four.
\<close>

theorem e2e_score_queries_counterexample:
  "score_queries (langevin stub_env e2e_cfg e2e_args 0 e2e_batch e2e_mvue e2e_sigmas start_state)
     = Some 12"
proof -
  have "num_classes e2e_cfg \<le> int (length e2e_sigmas)"
    by (simp add: e2e_cfg_def e2e_sigmas_def)
  from langevin_ok [OF stub_env_ok this]
  obtain st' where r: "langevin stub_env e2e_cfg e2e_args 0 e2e_batch e2e_mvue e2e_sigmas start_state = Inr st'"
    by blast
  have "length (score_log st') = 12"
    using langevin_queries [OF r] by (simp add: e2e_steps inner_count_def start_state_def)
  then show ?thesis by (simp add: r score_queries_def)
qed

theorem e2e_score_queries_witness:
  "\<exists>st'. langevin stub_env e2e_cfg e2e_args 0 e2e_batch e2e_mvue e2e_sigmas start_state = Inr st'
     \<and> length (score_log st') = 12"
proof -
  have "num_classes e2e_cfg \<le> int (length e2e_sigmas)"
    by (simp add: e2e_cfg_def e2e_sigmas_def)
  from langevin_ok [OF stub_env_ok this]
  obtain st' where r: "langevin stub_env e2e_cfg e2e_args 0 e2e_batch e2e_mvue e2e_sigmas start_state = Inr st'"
    by blast
  have nc: "num_classes e2e_cfg = 10" and si: "start_iter e2e_cfg = 5"
    by (simp_all add: e2e_cfg_def)
  from e2e_score_queries [OF nc si r] have "length (score_log st') = 12"
    by (simp add: start_state_def)
  with r show ?thesis by blast
qed

text \<open>
  C8. With collaborators that keep their contract on shapes, the candidate has the shape
  \<open>[batch, 2, H, W]\<close> when it is drawn; an inner iteration that starts from a candidate
  of this shape returns, with a candidate of this shape; and the whole annealing loop
  returns, with a candidate of this shape.
\<close>

theorem candidate_shape_invariant:
  assumes ok: "collaborators_ok E A X mv (batch_size cfg) C (fst (image_size cfg)) (snd (image_size cfg))"
    and sg: "num_classes cfg \<le> int (length sigmas)"
  shows "shape (xt (initial_candidate E cfg st)) =
           [batch_size cfg, 2, fst (image_size cfg), snd (image_size cfg)]
     \<and> (\<forall>s ss labels.
          shape (xt s) = [batch_size cfg, 2, fst (image_size cfg), snd (image_size cfg)] \<longrightarrow>
          (\<exists>s'. inner_iteration E cfg A X mv ss labels s = Inr s' \<and>
                shape (xt s') = [batch_size cfg, 2, fst (image_size cfg), snd (image_size cfg)]))
     \<and> (\<exists>st'. langevin E cfg A idx X mv sigmas st = Inr st' \<and>
                shape (xt st') = [batch_size cfg, 2, fst (image_size cfg), snd (image_size cfg)])"
proof (intro conjI allI impI)
  show "shape (xt (initial_candidate E cfg st)) =
      [batch_size cfg, 2, fst (image_size cfg), snd (image_size cfg)]"
    by (simp add: initial_candidate_def randn_tensor_def)
next
  fix s :: sampler_state and ss :: fl and labels :: "int list"
  assume "shape (xt s) = [batch_size cfg, 2, fst (image_size cfg), snd (image_size cfg)]"
  from inner_iteration_ok [OF ok this, of cfg ss labels]
  show "\<exists>s'. inner_iteration E cfg A X mv ss labels s = Inr s' \<and>
      shape (xt s') = [batch_size cfg, 2, fst (image_size cfg), snd (image_size cfg)]"
    by blast
next
  show "\<exists>st'. langevin E cfg A idx X mv sigmas st = Inr st' \<and>
      shape (xt st') = [batch_size cfg, 2, fst (image_size cfg), snd (image_size cfg)]"
    by (rule langevin_ok [OF ok sg])
qed

theorem candidate_shape_invariant_witness:
  "shape (xt (initial_candidate stub_env e2e_cfg start_state)) = [1, 2, 8, 8]
   \<and> (\<exists>s'. inner_iteration stub_env e2e_cfg e2e_args e2e_batch e2e_mvue (Fin 1) [6]
             (initial_candidate stub_env e2e_cfg start_state) = Inr s' \<and> shape (xt s') = [1, 2, 8, 8])
   \<and> (\<exists>st'. langevin stub_env e2e_cfg e2e_args 0 e2e_batch e2e_mvue e2e_sigmas start_state = Inr st'
             \<and> shape (xt st') = [1, 2, 8, 8])"
proof -
  have sg: "num_classes e2e_cfg \<le> int (length e2e_sigmas)"
    by (simp add: e2e_cfg_def e2e_sigmas_def)
  have dims: "batch_size e2e_cfg = 1" "image_size e2e_cfg = (8, 8)"
    by (simp_all add: e2e_cfg_def)
  note inv = candidate_shape_invariant [OF stub_env_ok sg, of start_state 0]
  from inv have a: "shape (xt (initial_candidate stub_env e2e_cfg start_state)) = [1, 2, 8, 8]"
    by (simp add: dims)
  from inv a have b: "\<exists>s'. inner_iteration stub_env e2e_cfg e2e_args e2e_batch e2e_mvue (Fin 1) [6]
             (initial_candidate stub_env e2e_cfg start_state) = Inr s' \<and> shape (xt s') = [1, 2, 8, 8]"
    by (simp add: dims)
  from inv have c: "\<exists>st'. langevin stub_env e2e_cfg e2e_args 0 e2e_batch e2e_mvue e2e_sigmas start_state = Inr st'
             \<and> shape (xt st') = [1, 2, 8, 8]"
    by (simp add: dims)
  from a b c show ?thesis by blast
qed


section \<open>The rescaling of the data-consistency gradient\<close>

lemma fadd_Fin: "fadd a b = Fin v \<Longrightarrow> \<exists>x y. a = Fin x \<and> b = Fin y \<and> v = x + y"
  by (cases a; cases b) simp_all

lemma fmul_self_Fin: "fmul a a = Fin v \<Longrightarrow> is_fin a"
  by (cases a) simp_all

lemma fsum_squares_fin:
  "fsum (map (\<lambda>i. fmul (f i) (f i)) L) = Fin v \<Longrightarrow> \<forall>i\<in>set L. is_fin (f i)"
proof (induction L arbitrary: v)
  case Nil
  show ?case by simp
next
  case (Cons a L)
  from Cons.prems have "fadd (fmul (f a) (f a)) (fsum (map (\<lambda>i. fmul (f i) (f i)) L)) = Fin v"
    by (simp add: fsum_def)
  from fadd_Fin [OF this] obtain x y where
    x: "fmul (f a) (f a) = Fin x" and y: "fsum (map (\<lambda>i. fmul (f i) (f i)) L) = Fin y"
    by blast
  show ?case using fmul_self_Fin [OF x] Cons.IH [OF y] by simp
qed

lemma fsum_squares_val:
  "\<forall>i\<in>set L. is_fin (f i) \<Longrightarrow>
   fsum (map (\<lambda>i. fmul (f i) (f i)) L) = Fin (\<Sum>i\<leftarrow>L. (fin_val (f i))\<^sup>2)"
proof (induction L)
  case Nil
  show ?case by (simp add: fsum_def)
next
  case (Cons a L)
  then obtain x where x: "f a = Fin x" by (cases "f a") simp_all
  from Cons have "fsum (map (\<lambda>i. fmul (f i) (f i)) L) = Fin (\<Sum>i\<leftarrow>L. (fin_val (f i))\<^sup>2)"
    by simp
  then show ?case using x by (simp add: fsum_def power2_eq_square)
qed

lemma tnorm_Fin:
  assumes "tnorm g = Fin r"
  shows "(\<forall>i\<in>set (indices (shape g)). is_fin (elem g i)) \<and>
         r = sqrt (\<Sum>i\<leftarrow>indices (shape g). (fin_val (elem g i))\<^sup>2)"
proof -
  from assms obtain v where v: "fsum (map (\<lambda>i. fmul (elem g i) (elem g i)) (indices (shape g))) = Fin v"
    unfolding tnorm_def by (cases "fsum (map (\<lambda>i. fmul (elem g i) (elem g i)) (indices (shape g)))") simp_all
  have fin: "\<forall>i\<in>set (indices (shape g)). is_fin (elem g i)"
    by (rule fsum_squares_fin [OF v])
  have "tnorm g = fsqrt (Fin (\<Sum>i\<leftarrow>indices (shape g). (fin_val (elem g i))\<^sup>2))"
    unfolding tnorm_def using fsum_squares_val [OF fin] by simp
  moreover have "0 \<le> (\<Sum>i\<leftarrow>indices (shape g). (fin_val (elem g i))\<^sup>2)"
    by (rule sum_list_nonneg) auto
  ultimately show ?thesis using assms fin by simp
qed

lemma tnorm_of_fin:
  assumes "\<forall>i\<in>set (indices (shape g)). is_fin (elem g i)"
  shows "tnorm g = Fin (sqrt (\<Sum>i\<leftarrow>indices (shape g). (fin_val (elem g i))\<^sup>2))"
proof -
  have "0 \<le> (\<Sum>i\<leftarrow>indices (shape g). (fin_val (elem g i))\<^sup>2)"
    by (rule sum_list_nonneg) auto
  then show ?thesis
    unfolding tnorm_def using fsum_squares_val [OF assms] by simp
qed

text \<open>A norm is zero only when every entry is zero: line 93 then computes \<open>0/0\<close>.\<close>

lemma tnorm_zero_entries:
  assumes "tnorm g = Fin 0"
  shows "\<forall>i\<in>set (indices (shape g)). elem g i = Fin 0"
proof
  fix i assume i: "i \<in> set (indices (shape g))"
  let ?L = "indices (shape g)"
  from tnorm_Fin [OF assms] have fin: "\<forall>i\<in>set ?L. is_fin (elem g i)"
    and z: "0 = sqrt (\<Sum>i\<leftarrow>?L. (fin_val (elem g i))\<^sup>2)"
    by simp_all
  have "(\<Sum>i\<leftarrow>?L. (fin_val (elem g i))\<^sup>2) = 0" using z by simp
  then have "\<forall>x\<in>set (map (\<lambda>i. (fin_val (elem g i))\<^sup>2) ?L). x = 0"
    by (subst (asm) sum_list_nonneg_eq_0_iff) auto
  with i have "fin_val (elem g i) = 0" by simp
  moreover from fin i obtain a where "elem g i = Fin a" by (cases "elem g i") auto
  ultimately show "elem g i = Fin 0" by simp
qed

lemma elem_match_norm:
  "elem (match_norm g p) i = fmul (fdiv (elem g i) (tnorm g)) (tnorm p)"
  by (simp add: match_norm_def)

text \<open>
  C3. Lines 93 and 94 give the data-consistency gradient the norm of the prior gradient:
  when the norm of the gradient is finite and not zero and the norm of the prior gradient
  is finite, the rescaled gradient, which the mixing weight then multiplies, has the norm
  of the prior gradient. The arithmetic is that of the real numbers, so the two norms are
  equal.
\<close>

theorem match_norm_norm:
  assumes g: "tnorm g = Fin r" and nz: "r \<noteq> 0" and p: "tnorm p = Fin q"
  shows "tnorm (match_norm g p) = tnorm p"
proof -
  let ?L = "indices (shape g)"
  let ?S = "\<Sum>i\<leftarrow>?L. (fin_val (elem g i))\<^sup>2"
  from tnorm_Fin [OF g] have fin: "\<forall>i\<in>set ?L. is_fin (elem g i)" and r: "r = sqrt ?S"
    by simp_all
  have "0 \<le> (\<Sum>i\<leftarrow>indices (shape p). (fin_val (elem p i))\<^sup>2)"
    by (rule sum_list_nonneg) auto
  with tnorm_Fin [OF p] have q0: "0 \<le> q" by simp
  have S0: "0 \<le> ?S" by (rule sum_list_nonneg) auto
  have r0: "0 < r" using r nz S0 by (simp add: less_le)
  have rr: "r\<^sup>2 = ?S" using r S0 by simp
  have el: "\<forall>i\<in>set ?L. elem (match_norm g p) i = Fin (fin_val (elem g i) / r * q)"
  proof
    fix i assume "i \<in> set ?L"
    with fin obtain a where "elem g i = Fin a" by (cases "elem g i") auto
    then show "elem (match_norm g p) i = Fin (fin_val (elem g i) / r * q)"
      using nz by (simp add: elem_match_norm g p)
  qed
  then have fin2: "\<forall>i\<in>set (indices (shape (match_norm g p))). is_fin (elem (match_norm g p) i)"
    by simp
  have "(\<Sum>i\<leftarrow>?L. (fin_val (elem (match_norm g p) i))\<^sup>2) = (\<Sum>i\<leftarrow>?L. (q / r)\<^sup>2 * (fin_val (elem g i))\<^sup>2)"
    using el by (intro arg_cong [where f = sum_list] map_cong) (auto simp: power2_eq_square)
  also have "\<dots> = (q / r)\<^sup>2 * ?S"
    by (simp add: sum_list_const_mult)
  also have "\<dots> = q\<^sup>2"
    using nz rr [symmetric] by (simp add: power_divide)
  finally have "tnorm (match_norm g p) = Fin (sqrt (q\<^sup>2))"
    using tnorm_of_fin [OF fin2] by simp
  then show ?thesis using q0 p by simp
qed

theorem match_norm_norm_witness:
  "tnorm ex_g = Fin 5 \<and> tnorm ex_p = Fin 2 \<and> tnorm (match_norm ex_g ex_p) = Fin 2"
proof -
  have s25: "sqrt 25 = 5" by (rule real_sqrt_unique) simp_all
  have g: "tnorm ex_g = Fin 5"
    by (simp add: tnorm_def fsum_def ex_g_def upt_rec s25)
  have p: "tnorm ex_p = Fin 2"
    by (simp add: tnorm_def fsum_def ex_p_def const_tensor_def upt_rec)
  from match_norm_norm [OF g _ p] g p show ?thesis by simp
qed


section \<open>The step size\<close>

text \<open>
  C6. For a noise schedule of \<open>num_classes\<close> positive, strictly decreasing levels and a
  positive base step size, the step size of line 82 at a step of the loop is
  \<open>step_lr * (sigmas[step] / sigmas[-1])\<^sup>2\<close>; it is not negative, and it is \<open>step_lr\<close>
  at the last step and at no other.
\<close>

theorem step_size_schedule:
  assumes dec: "sorted_wrt (>) sigmas" and pos: "list_all (\<lambda>s. 0 < s) sigmas"
    and len: "int (length sigmas) = num_classes cfg" and lr: "0 < step_lr cfg"
    and st: "0 \<le> step" "step < num_classes cfg"
  shows "step_size_at cfg sigmas step =
           Inr (Fin (step_lr cfg * (sigmas ! nat step / last sigmas)\<^sup>2))
       \<and> 0 \<le> step_lr cfg * (sigmas ! nat step / last sigmas)\<^sup>2
       \<and> (step_lr cfg * (sigmas ! nat step / last sigmas)\<^sup>2 = step_lr cfg
            \<longleftrightarrow> step = num_classes cfg - 1)"
proof -
  let ?n = "length sigmas"
  let ?i = "nat step"
  have i: "?i < ?n" using st len by simp
  then have ne: "sigmas \<noteq> []" by auto
  have lastn: "last sigmas = sigmas ! (?n - 1)" using ne by (simp add: last_conv_nth)
  have pl: "0 < last sigmas" using pos ne by (simp add: list_all_iff)
  have pi: "0 < sigmas ! ?i" using pos i by (simp add: list_all_iff)
  have val: "step_size_at cfg sigmas step =
      Inr (Fin (step_lr cfg * (sigmas ! ?i / last sigmas)\<^sup>2))"
    using step_size_at_ok [of step sigmas cfg] st len pl by (simp add: power2_eq_square)
  have nonneg: "0 \<le> step_lr cfg * (sigmas ! ?i / last sigmas)\<^sup>2"
    using lr by simp
  have iff: "step_lr cfg * (sigmas ! ?i / last sigmas)\<^sup>2 = step_lr cfg \<longleftrightarrow> step = num_classes cfg - 1"
  proof (cases "?i = ?n - 1")
    case True
    then have "step = num_classes cfg - 1" using st len i by linarith
    moreover have "sigmas ! ?i / last sigmas = 1" using True lastn pl by simp
    ultimately show ?thesis by simp
  next
    case False
    then have lt: "?i < ?n - 1" using i by simp
    have "sigmas ! ?i > sigmas ! (?n - 1)"
      using sorted_wrt_nth_less [OF dec lt] i by simp
    then have "1 < sigmas ! ?i / last sigmas" using pl lastn by simp
    then have "1 < (sigmas ! ?i / last sigmas)\<^sup>2"
      by (rule one_less_power) simp
    then have "step_lr cfg * (sigmas ! ?i / last sigmas)\<^sup>2 \<noteq> step_lr cfg" using lr by simp
    moreover have "step \<noteq> num_classes cfg - 1" using False st len by linarith
    ultimately show ?thesis by simp
  qed
  from val nonneg iff show ?thesis by blast
qed

theorem step_size_schedule_witness:
  "step_size_at e2e_cfg e2e_sigmas 6 = Inr (Fin 16) \<and> (0::real) \<le> 16
   \<and> step_size_at e2e_cfg e2e_sigmas 9 = Inr (Fin (step_lr e2e_cfg))"
proof -
  have dec: "sorted_wrt (>) e2e_sigmas" and pos: "list_all (\<lambda>s. 0 < s) e2e_sigmas"
    by (simp_all add: e2e_sigmas_def)
  have len: "int (length e2e_sigmas) = num_classes e2e_cfg" and lr: "0 < step_lr e2e_cfg"
    by (simp_all add: e2e_sigmas_def e2e_cfg_def)
  have n6: "e2e_sigmas ! 6 = 4" and n9: "e2e_sigmas ! 9 = 1" and l: "last e2e_sigmas = 1"
    by (simp_all add: e2e_sigmas_def eval_nat_numeral)
  have a: "step_size_at e2e_cfg e2e_sigmas 6 = Inr (Fin 16)"
    using step_size_schedule [OF dec pos len lr, of 6] by (simp add: n6 l e2e_cfg_def)
  have b: "step_size_at e2e_cfg e2e_sigmas 9 = Inr (Fin (step_lr e2e_cfg))"
    using step_size_schedule [OF dec pos len lr, of 9] by (simp add: n9 l e2e_cfg_def)
  from a b show ?thesis by simp
qed


section \<open>A gradient of norm zero\<close>

lemma match_norm_zero_norm: "tnorm g = Fin 0 \<Longrightarrow> elem (match_norm g p) i = NaN"
  by (cases "elem g i") (simp_all add: elem_match_norm)

lemma inner_iteration_zero_norm:
  assumes ok: "collaborators_ok E A X mv B C H W" and sh: "shape (xt st) = [B, 2, H, W]"
    and g: "dc_gradient E A X mv (xt st) = Inr g" and z: "tnorm g = Fin 0"
  shows "\<exists>st'. inner_iteration E cfg A X mv ss labels st = Inr st' \<and>
           shape (xt st') = [B, 2, H, W] \<and>
           (\<forall>idx. valid_index [B, 2, H, W] idx \<longrightarrow> elem (xt st') idx = NaN)"
proof -
  from inner_iteration_ok [OF ok sh, of cfg ss labels] g
  obtain st' where st': "inner_iteration E cfg A X mv ss labels st = Inr st'"
      "shape (xt st') = [B, 2, H, W]"
      "\<forall>idx. valid_index [B, 2, H, W] idx \<longrightarrow>
              elem (xt st') idx =
                fadd (fadd (elem (xt st) idx)
                           (fmul ss (fsub (elem (score E (xt st) labels) idx)
                                          (elem (weighted cfg (match_norm g (score E (xt st) labels))) idx))))
                     (elem (scaled_noise E ss st) idx)"
    by auto
  have "\<And>idx. elem (weighted cfg (match_norm g (score E (xt st) labels))) idx = NaN"
    by (simp add: weighted_def match_norm_zero_norm [OF z])
  with st'(3) have "\<forall>idx. valid_index [B, 2, H, W] idx \<longrightarrow> elem (xt st') idx = NaN"
    by simp
  with st'(1,2) show ?thesis by blast
qed

lemma inner_iteration_nan:
  assumes ok: "collaborators_ok E A X mv B C H W" and sh: "shape (xt st) = [B, 2, H, W]"
    and nan: "\<forall>idx. valid_index [B, 2, H, W] idx \<longrightarrow> elem (xt st) idx = NaN"
  shows "\<exists>st'. inner_iteration E cfg A X mv ss labels st = Inr st' \<and>
           shape (xt st') = [B, 2, H, W] \<and>
           (\<forall>idx. valid_index [B, 2, H, W] idx \<longrightarrow> elem (xt st') idx = NaN)"
proof -
  from inner_iteration_ok [OF ok sh, of cfg ss labels]
  obtain g st' where st': "inner_iteration E cfg A X mv ss labels st = Inr st'"
      "shape (xt st') = [B, 2, H, W]"
      "\<forall>idx. valid_index [B, 2, H, W] idx \<longrightarrow>
              elem (xt st') idx =
                fadd (fadd (elem (xt st) idx)
                           (fmul ss (fsub (elem (score E (xt st) labels) idx)
                                          (elem (weighted cfg (match_norm g (score E (xt st) labels))) idx))))
                     (elem (scaled_noise E ss st) idx)"
    by auto
  from st'(3) nan have "\<forall>idx. valid_index [B, 2, H, W] idx \<longrightarrow> elem (xt st') idx = NaN"
    by simp
  with st'(1,2) show ?thesis by blast
qed

lemma inner_loop_nan:
  assumes ok: "collaborators_ok E A X mv B C H W"
  shows "shape (xt st) = [B, 2, H, W] \<Longrightarrow>
         \<forall>idx. valid_index [B, 2, H, W] idx \<longrightarrow> elem (xt st) idx = NaN \<Longrightarrow>
         \<exists>st'. inner_loop E cfg A X mv ss labels n st = Inr st' \<and> shape (xt st') = [B, 2, H, W] \<and>
           (\<forall>idx. valid_index [B, 2, H, W] idx \<longrightarrow> elem (xt st') idx = NaN)"
proof (induction n arbitrary: st)
  case 0
  then show ?case by simp
next
  case (Suc n)
  from inner_iteration_nan [OF ok Suc.prems, of cfg ss labels]
  obtain s1 where s1: "inner_iteration E cfg A X mv ss labels st = Inr s1"
      "shape (xt s1) = [B, 2, H, W]"
      "\<forall>idx. valid_index [B, 2, H, W] idx \<longrightarrow> elem (xt s1) idx = NaN"
    by blast
  show ?case using Suc.IH [OF s1(2,3)] s1(1) by (simp add: bindE_def)
qed

lemma inner_loop_zero_norm:
  assumes ok: "collaborators_ok E A X mv B C H W" and sh: "shape (xt st) = [B, 2, H, W]"
    and g: "dc_gradient E A X mv (xt st) = Inr g" and z: "tnorm g = Fin 0" and n: "0 < n"
  shows "\<exists>st'. inner_loop E cfg A X mv ss labels n st = Inr st' \<and> shape (xt st') = [B, 2, H, W] \<and>
           (\<forall>idx. valid_index [B, 2, H, W] idx \<longrightarrow> elem (xt st') idx = NaN)"
proof -
  from n obtain m where m: "n = Suc m" by (cases n) simp_all
  from inner_iteration_zero_norm [OF ok sh g z, of cfg ss labels]
  obtain s1 where s1: "inner_iteration E cfg A X mv ss labels st = Inr s1"
      "shape (xt s1) = [B, 2, H, W]"
      "\<forall>idx. valid_index [B, 2, H, W] idx \<longrightarrow> elem (xt s1) idx = NaN"
    by blast
  show ?thesis
    using inner_loop_nan [OF ok s1(2,3), of cfg ss labels m] s1(1) by (simp add: m bindE_def)
qed

lemma outer_body_unfold:
  assumes sh: "shape (xt st) = B # rest" and st: "0 \<le> step" "step < int (length sigmas)"
  shows "\<exists>ss st1. xt st1 = xt st \<and> step_size_at cfg sigmas step = Inr ss \<and>
           outer_body E cfg A idx X mv sigmas step st =
             inner_loop E cfg A X mv ss (replicate B step) (nat (inner_count cfg step)) st1"
proof -
  let ?st1 = "if step mod log_interval cfg = 0
              then st\<lparr>info_log := info_log st @ [BatchStep idx step]\<rparr> else st"
  have x1: "xt ?st1 = xt st" by simp
  have lb: "labels_at (xt ?st1) step = Inr (replicate B step)"
    using sh by (simp add: labels_at_def)
  obtain ss where ss: "step_size_at cfg sigmas step = Inr ss"
    using step_size_at_ok [OF st] by blast
  have "outer_body E cfg A idx X mv sigmas step st =
      inner_loop E cfg A X mv ss (replicate B step) (nat (inner_count cfg step)) ?st1"
    using lb ss unfolding outer_body_def Let_def bindE_def by simp
  with x1 ss show ?thesis by blast
qed

lemma outer_body_nan:
  assumes ok: "collaborators_ok E A X mv B C H W" and sh: "shape (xt st) = [B, 2, H, W]"
    and nan: "\<forall>idx. valid_index [B, 2, H, W] idx \<longrightarrow> elem (xt st) idx = NaN"
    and st: "0 \<le> step" "step < int (length sigmas)"
  shows "\<exists>st'. outer_body E cfg A idx X mv sigmas step st = Inr st' \<and> shape (xt st') = [B, 2, H, W] \<and>
           (\<forall>idx. valid_index [B, 2, H, W] idx \<longrightarrow> elem (xt st') idx = NaN)"
proof -
  from outer_body_unfold [OF sh st, of cfg E A idx X mv]
  obtain ss st1 where u: "xt st1 = xt st"
      "outer_body E cfg A idx X mv sigmas step st =
         inner_loop E cfg A X mv ss (replicate B step) (nat (inner_count cfg step)) st1"
    by blast
  have sh1: "shape (xt st1) = [B, 2, H, W]" using sh u(1) by simp
  have nan1: "\<forall>idx. valid_index [B, 2, H, W] idx \<longrightarrow> elem (xt st1) idx = NaN"
    using nan u(1) by simp
  show ?thesis
    using inner_loop_nan [OF ok sh1 nan1] u(2) by simp
qed

lemma outer_body_zero_norm:
  assumes ok: "collaborators_ok E A X mv B C H W" and sh: "shape (xt st) = [B, 2, H, W]"
    and g: "dc_gradient E A X mv (xt st) = Inr g" and z: "tnorm g = Fin 0"
    and st: "0 \<le> step" "step < int (length sigmas)" and n: "0 < inner_count cfg step"
  shows "\<exists>st'. outer_body E cfg A idx X mv sigmas step st = Inr st' \<and> shape (xt st') = [B, 2, H, W] \<and>
           (\<forall>idx. valid_index [B, 2, H, W] idx \<longrightarrow> elem (xt st') idx = NaN)"
proof -
  from outer_body_unfold [OF sh st, of cfg E A idx X mv]
  obtain ss st1 where u: "xt st1 = xt st"
      "outer_body E cfg A idx X mv sigmas step st =
         inner_loop E cfg A X mv ss (replicate B step) (nat (inner_count cfg step)) st1"
    by blast
  have sh1: "shape (xt st1) = [B, 2, H, W]" using sh u(1) by simp
  have g1: "dc_gradient E A X mv (xt st1) = Inr g" using g u(1) by simp
  have n1: "0 < nat (inner_count cfg step)" using n by simp
  show ?thesis
    using inner_loop_zero_norm [OF ok sh1 g1 z n1] u(2) by simp
qed

lemma run_steps_nan:
  assumes ok: "collaborators_ok E A X mv B C H W"
  shows "shape (xt st) = [B, 2, H, W] \<Longrightarrow>
     \<forall>idx. valid_index [B, 2, H, W] idx \<longrightarrow> elem (xt st) idx = NaN \<Longrightarrow>
     list_all (\<lambda>s. 0 \<le> s \<and> s < int (length sigmas)) steps \<Longrightarrow>
     \<exists>st'. run_steps (outer_body E cfg A idx X mv sigmas) steps st = Inr st' \<and>
           shape (xt st') = [B, 2, H, W] \<and>
           (\<forall>idx. valid_index [B, 2, H, W] idx \<longrightarrow> elem (xt st') idx = NaN)"
proof (induction steps arbitrary: st)
  case Nil
  then show ?case by simp
next
  case (Cons k ks)
  from Cons.prems(3) have k: "0 \<le> k" "k < int (length sigmas)"
    and ks: "list_all (\<lambda>s. 0 \<le> s \<and> s < int (length sigmas)) ks" by simp_all
  from outer_body_nan [OF ok Cons.prems(1,2) k]
  obtain s1 where s1: "outer_body E cfg A idx X mv sigmas k st = Inr s1"
      "shape (xt s1) = [B, 2, H, W]"
      "\<forall>idx. valid_index [B, 2, H, W] idx \<longrightarrow> elem (xt s1) idx = NaN"
    by blast
  show ?case using Cons.IH [OF s1(2,3) ks] s1(1) by (simp add: bindE_def)
qed

lemma langevin_zero_norm:
  assumes ok: "collaborators_ok E A X mv (batch_size cfg) C (fst (image_size cfg)) (snd (image_size cfg))"
    and sg: "num_classes cfg \<le> int (length sigmas)"
    and g: "dc_gradient E A X mv (xt (initial_candidate E cfg st)) = Inr g" and z: "tnorm g = Fin 0"
    and one: "max 0 (start_iter cfg + 1) \<le> num_classes cfg - 1"
    and n: "0 < inner_count cfg (max 0 (start_iter cfg + 1))"
  shows "\<exists>st'. langevin E cfg A idx X mv sigmas st = Inr st' \<and>
           shape (xt st') = [batch_size cfg, 2, fst (image_size cfg), snd (image_size cfg)] \<and>
           (\<forall>idx. valid_index [batch_size cfg, 2, fst (image_size cfg), snd (image_size cfg)] idx
                  \<longrightarrow> elem (xt st') idx = NaN)"
proof -
  let ?k = "max 0 (start_iter cfg + 1)"
  let ?S = "[batch_size cfg, 2, fst (image_size cfg), snd (image_size cfg)]"
  have sh: "shape (xt (initial_candidate E cfg st)) = ?S"
    by (simp add: initial_candidate_def randn_tensor_def)
  have steps: "[?k..num_classes cfg - 1] = ?k # [?k + 1..num_classes cfg - 1]"
    using one by (simp add: upto_rec1)
  have k: "0 \<le> ?k" "?k < int (length sigmas)" using one sg by linarith+
  have rg: "list_all (\<lambda>s. 0 \<le> s \<and> s < int (length sigmas)) [?k + 1..num_classes cfg - 1]"
    using sg by (auto simp: list_all_iff)
  from outer_body_zero_norm [OF ok sh g z k n]
  obtain s1 where s1: "outer_body E cfg A idx X mv sigmas ?k (initial_candidate E cfg st) = Inr s1"
      "shape (xt s1) = ?S" "\<forall>idx. valid_index ?S idx \<longrightarrow> elem (xt s1) idx = NaN"
    by blast
  from run_steps_nan [OF ok s1(2,3) rg]
  obtain st' where "run_steps (outer_body E cfg A idx X mv sigmas) [?k + 1..num_classes cfg - 1] s1 = Inr st'"
      "shape (xt st') = ?S" "\<forall>idx. valid_index ?S idx \<longrightarrow> elem (xt st') idx = NaN"
    by blast
  then show ?thesis
    using s1(1) by (simp add: langevin_steps steps bindE_def)
qed

lemma nan_env_ok:
  "collaborators_ok stub_env e2e_args nan_batch nan_mvue (batch_size nan_cfg) 1
     (fst (image_size nan_cfg)) (snd (image_size nan_cfg))"
  by (simp add: collaborators_ok_def stub_env_def stub_forward_def nan_batch_def nan_cfg_def
      const_tensor_def)

lemma nan_gradient:
  "\<exists>g. dc_gradient stub_env e2e_args nan_batch nan_mvue
          (xt (initial_candidate stub_env nan_cfg start_state)) = Inr g \<and> tnorm g = Fin 0"
  by (simp add: dc_gradient_def measurement_gradient_def forward_operator_def select1_def
      tbinop_def broadcast_shapes_def bdim_def bproj_def sum_axis1_def permute_0312_def
      view_as_real_def tmap_def csum_def bindE_def
      initial_candidate_def randn_tensor_def stub_env_def stub_forward_def nan_batch_def
      nan_cfg_def const_tensor_def tnorm_def fsum_def upt_rec)

lemma idx_1211: "indices [1, 2, 1, 1] = [[0, 0, 0, 0], [0, 1, 0, 0]]"
  by (simp add: upt_rec)

text \<open>
  C10. There is an input on which the rescaling divides by a norm that is zero: the batch
  whose ground truth is what the forward operator measures on the candidate drawn. The
  data-consistency gradient of the first inner iteration is then zero in every entry, line
  93 divides it by its norm 0, and nothing tests the norm: every entry of the candidate is
  NaN after the annealing loop, stays NaN under the final scaling, and the displayed image
  is NaN.
\<close>

theorem zero_gradient_nan:
  "\<exists>g s d. dc_gradient stub_env e2e_args nan_batch nan_mvue
            (xt (initial_candidate stub_env nan_cfg start_state)) = Inr g
     \<and> map (elem g) (indices (shape g)) = [Fin 0, Fin 0]
     \<and> tnorm g = Fin 0
     \<and> langevin stub_env nan_cfg e2e_args 0 nan_batch nan_mvue [2, 1] start_state = Inr s
     \<and> shape (xt s) = [1, 2, 1, 1]
     \<and> map (elem (xt s)) (indices (shape (xt s))) = [NaN, NaN]
     \<and> map (elem (normalize stub_env (xt s) nan_mvue)) (indices [1, 2, 1, 1]) = [NaN, NaN]
     \<and> reconstruct stub_env nan_cfg e2e_args 0 nan_batch [2, 1] start_state = Inr (d, s)
     \<and> shape d = [1, 1, 1] \<and> elem d [0, 0, 0] = NaN"
proof -
  from nan_gradient obtain g where
    g: "dc_gradient stub_env e2e_args nan_batch nan_mvue
          (xt (initial_candidate stub_env nan_cfg start_state)) = Inr g" and z: "tnorm g = Fin 0"
    by blast
  have sg: "num_classes nan_cfg \<le> int (length [2, 1 :: real])" by (simp add: nan_cfg_def)
  have one: "max 0 (start_iter nan_cfg + 1) \<le> num_classes nan_cfg - 1" by (simp add: nan_cfg_def)
  have n: "0 < inner_count nan_cfg (max 0 (start_iter nan_cfg + 1))"
    by (simp add: nan_cfg_def inner_count_def)
  have dims: "batch_size nan_cfg = 1" "image_size nan_cfg = (1, 1)"
    by (simp_all add: nan_cfg_def)
  from langevin_zero_norm [OF nan_env_ok sg g z one n, of 0]
  obtain s where s: "langevin stub_env nan_cfg e2e_args 0 nan_batch nan_mvue [2, 1] start_state = Inr s"
      "shape (xt s) = [1, 2, 1, 1]"
      "\<forall>idx. valid_index [1, 2, 1, 1] idx \<longrightarrow> elem (xt s) idx = NaN"
    by (auto simp: dims)
  have e0: "elem (xt s) [0, 0, 0, 0] = NaN" and e1: "elem (xt s) [0, 1, 0, 0] = NaN"
    using s(3) by (simp_all add: valid_index_def)
  have m: "map (elem (xt s)) (indices (shape (xt s))) = [NaN, NaN]"
    unfolding s(2) idx_1211 using e0 e1 by simp
  have nm: "normalize stub_env (xt s) nan_mvue = xt s" by (simp add: stub_env_def)
  obtain d where d: "to_display nan_cfg (xt s) = Inr d" "shape d = [1, 1, 1]" "elem d [0, 0, 0] = NaN"
    using s(2) e0 e1
    by (simp add: to_display_def permute_0231_def reshape_hw2_def view_as_complex_def flip2_def
        tmap_def bindE_def ravel_def Let_def nan_cfg_def)
  have rc: "reconstruct stub_env nan_cfg e2e_args 0 nan_batch [2, 1] start_state = Inr (d, s)"
    using s(1) d(1) nm by (simp add: reconstruct_def bindE_def Let_def nan_mvue_def)
  have sx: "shape (xt (initial_candidate stub_env nan_cfg start_state)) = [1, 2, 1, 1]"
    by (simp add: initial_candidate_def randn_tensor_def nan_cfg_def)
  have okn: "collaborators_ok stub_env e2e_args nan_batch nan_mvue 1 1 1 1"
    using nan_env_ok by (simp add: dims)
  from dc_gradient_ok [OF okn sx] g have sg': "shape g = [1, 2, 1, 1]" by simp
  have gz: "map (elem g) (indices (shape g)) = [Fin 0, Fin 0]"
    using tnorm_zero_entries [OF z] unfolding sg' idx_1211 by simp
  from g gz z s(1,2) m nm rc d(2,3) show ?thesis
    by (metis s(2))
qed

theorem zero_gradient_nan_witness:
  "\<exists>s. langevin stub_env nan_cfg e2e_args 0 nan_batch nan_mvue [2, 1] start_state = Inr s
     \<and> shape (xt s) = [1, 2, 1, 1] \<and> elem (xt s) [0, 1, 0, 0] = NaN"
proof -
  from zero_gradient_nan obtain s where
    s: "langevin stub_env nan_cfg e2e_args 0 nan_batch nan_mvue [2, 1] start_state = Inr s"
      "shape (xt s) = [1, 2, 1, 1]" "map (elem (xt s)) (indices (shape (xt s))) = [NaN, NaN]"
    by (elim exE conjE)
  from s(3) have "elem (xt s) [0, 1, 0, 0] = NaN" unfolding s(2) idx_1211 by simp
  with s(1,2) show ?thesis by blast
qed

section \<open>The update of the candidate\<close>

text \<open>
  The data-consistency gradient entry by entry: the two channels of the normalised
  candidate make one complex image, the forward operator measures it, the ground truth is
  subtracted, and the inverse transform of the residual is multiplied by the conjugate of
  the sensitivity maps and summed over the coils; the real and the imaginary part of the
  sum are the two channels of the gradient, which is then unnormalised.
\<close>

lemma valid_index3: "valid_index [B, H, W] [b, h, w] \<longleftrightarrow> b < B \<and> h < H \<and> w < W"
  by (simp add: valid_index_def)

lemma valid_index4:
  "valid_index [B, C, H, W] [b, k, h, w] \<longleftrightarrow> b < B \<and> k < C \<and> h < H \<and> w < W"
  by (simp add: valid_index_def)

lemma select1_elems:
  assumes "shape x = [B, N, H, W]" "k < N"
  shows "\<exists>r. select1 k x = Inr r \<and> shape r = [B, H, W] \<and>
           (\<forall>b h w. elem r [b, h, w] = elem x [b, k, h, w])"
  using assms by (simp add: select1_def)

lemma bindE_assoc: "bindE (bindE m f) g = bindE m (\<lambda>v. bindE (f v) g)"
  by (cases m) (simp_all add: bindE_def)

lemma inner_loop_snoc:
  "inner_loop E cfg A X mv ss labels (Suc k) st =
   bindE (inner_loop E cfg A X mv ss labels k st) (inner_iteration E cfg A X mv ss labels)"
proof (induction k arbitrary: st)
  case 0
  show ?case by (cases "inner_iteration E cfg A X mv ss labels st") (simp_all add: bindE_def)
next
  case (Suc k)
  have eq: "inner_loop E cfg A X mv ss labels (Suc k) =
      (\<lambda>s. bindE (inner_loop E cfg A X mv ss labels k s) (inner_iteration E cfg A X mv ss labels))"
    by (rule ext) (rule Suc.IH)
  have a: "inner_loop E cfg A X mv ss labels (Suc (Suc k)) st =
      bindE (inner_iteration E cfg A X mv ss labels st) (inner_loop E cfg A X mv ss labels (Suc k))"
    by (rule inner_loop.simps(2))
  have b: "bindE (inner_iteration E cfg A X mv ss labels st) (inner_loop E cfg A X mv ss labels (Suc k)) =
      bindE (inner_iteration E cfg A X mv ss labels st)
        (\<lambda>s. bindE (inner_loop E cfg A X mv ss labels k s) (inner_iteration E cfg A X mv ss labels))"
    by (simp only: eq)
  have c: "bindE (inner_loop E cfg A X mv ss labels (Suc k) st) (inner_iteration E cfg A X mv ss labels) =
      bindE (bindE (inner_iteration E cfg A X mv ss labels st) (inner_loop E cfg A X mv ss labels k))
        (inner_iteration E cfg A X mv ss labels)"
    by (simp only: inner_loop.simps(2))
  show ?case unfolding a b c bindE_assoc ..
qed

lemma dc_gradient_elems:
  assumes ok: "collaborators_ok E A X mv B C H W" and x: "shape x = [B, 2, H, W]"
  shows "\<exists>c resid G.
      shape c = [B, H, W]
    \<and> (\<forall>b h w. b < B \<and> h < H \<and> w < W \<longrightarrow>
          elem c [b, h, w] =
            (elem (normalize E x mv) [b, 0, h, w], elem (normalize E x mv) [b, 1, h, w]))
    \<and> shape resid = [B, C, H, W]
    \<and> (\<forall>b k h w. b < B \<and> k < C \<and> h < H \<and> w < W \<longrightarrow>
          elem resid [b, k, h, w] =
            csub (elem (MulticoilForwardMRI E (orientation A) c (maps X) (mask X)) [b, k, h, w])
                 (elem (ground_truth X) [b, k, h, w]))
    \<and> shape G = [B, 2, H, W]
    \<and> (\<forall>b h w. b < B \<and> h < H \<and> w < W \<longrightarrow>
          elem G [b, 0, h, w] =
            fst (csum (map (\<lambda>k. cmul (elem (ifft E resid) [b, k, h, w])
                                      (cconj (elem (maps X) [b, k, h, w]))) [0..<C]))
        \<and> elem G [b, 1, h, w] =
            snd (csum (map (\<lambda>k. cmul (elem (ifft E resid) [b, k, h, w])
                                      (cconj (elem (maps X) [b, k, h, w]))) [0..<C])))
    \<and> dc_gradient E A X mv x = Inr (unnormalize E G mv)"
proof -
  let ?y = "normalize E x mv"
  have y: "shape ?y = [B, 2, H, W]" using ok x by (simp add: collaborators_ok_def)
  obtain re where re: "select1 0 ?y = Inr re" "shape re = [B, H, W]"
      "\<forall>b h w. elem re [b, h, w] = elem ?y [b, 0, h, w]"
    using select1_elems [OF y, of 0] by auto
  obtain im where im: "select1 1 ?y = Inr im" "shape im = [B, H, W]"
      "\<forall>b h w. elem im [b, h, w] = elem ?y [b, 1, h, w]"
    using select1_elems [OF y, of 1] by auto
  obtain c where c: "tbinop Pair re im = Inr c" "shape c = [B, H, W]"
      "\<forall>i. valid_index [B, H, W] i \<longrightarrow> elem c i = (elem re i, elem im i)"
    using tbinop_shape [OF re(2) im(2)] by blast
  let ?meas = "MulticoilForwardMRI E (orientation A) c (maps X) (mask X)"
  have meas: "shape ?meas = [B, C, H, W]" using ok c(2) by (simp add: collaborators_ok_def)
  have gt: "shape (ground_truth X) = [B, C, H, W]" and mps: "shape (maps X) = [B, C, H, W]"
    using ok by (simp_all add: collaborators_ok_def)
  obtain resid where resid: "tbinop csub ?meas (ground_truth X) = Inr resid"
      "shape resid = [B, C, H, W]"
      "\<forall>i. valid_index [B, C, H, W] i \<longrightarrow> elem resid i = csub (elem ?meas i) (elem (ground_truth X) i)"
    using tbinop_shape [OF meas gt] by blast
  have fi: "shape (ifft E resid) = [B, C, H, W]"
    using ok resid(2) by (simp add: collaborators_ok_def)
  have cj: "shape (tmap cconj (maps X)) = [B, C, H, W]" using mps by simp
  obtain bk where bk: "tbinop cmul (ifft E resid) (tmap cconj (maps X)) = Inr bk"
      "shape bk = [B, C, H, W]"
      "\<forall>i. valid_index [B, C, H, W] i \<longrightarrow>
           elem bk i = cmul (elem (ifft E resid) i) (elem (tmap cconj (maps X)) i)"
    using tbinop_shape [OF fi cj] by blast
  obtain summed where summed: "sum_axis1 bk = Inr summed" "shape summed = [B, H, W]"
      "\<forall>b h w. elem summed [b, h, w] = csum (map (\<lambda>k. elem bk [b, k, h, w]) [0..<C])"
    using bk(2) by (simp add: sum_axis1_def)
  obtain G where G: "permute_0312 (view_as_real summed) = Inr G" "shape G = [B, 2, H, W]"
      "\<forall>b h w. elem G [b, 0, h, w] = fst (elem summed [b, h, w]) \<and>
               elem G [b, 1, h, w] = snd (elem summed [b, h, w])"
    using summed(2) by (simp add: permute_0312_def view_as_real_def)
  have cel: "\<forall>b h w. b < B \<and> h < H \<and> w < W \<longrightarrow>
      elem c [b, h, w] = (elem ?y [b, 0, h, w], elem ?y [b, 1, h, w])"
    using c(3) re(3) im(3) by (simp add: valid_index3)
  have rel: "\<forall>b k h w. b < B \<and> k < C \<and> h < H \<and> w < W \<longrightarrow>
      elem resid [b, k, h, w] = csub (elem ?meas [b, k, h, w]) (elem (ground_truth X) [b, k, h, w])"
    using resid(3) by (simp add: valid_index4)
  have sel: "\<forall>b h w. b < B \<and> h < H \<and> w < W \<longrightarrow>
      elem summed [b, h, w] =
        csum (map (\<lambda>k. cmul (elem (ifft E resid) [b, k, h, w])
                            (cconj (elem (maps X) [b, k, h, w]))) [0..<C])"
  proof (intro allI impI)
    fix b h w assume v: "b < B \<and> h < H \<and> w < W"
    have m: "map (\<lambda>k. elem bk [b, k, h, w]) [0..<C] =
        map (\<lambda>k. cmul (elem (ifft E resid) [b, k, h, w])
                       (cconj (elem (maps X) [b, k, h, w]))) [0..<C]"
      using bk(3) v by (intro map_cong) (simp_all add: valid_index4)
    have "elem summed [b, h, w] = csum (map (\<lambda>k. elem bk [b, k, h, w]) [0..<C])"
      using summed(3) by blast
    then show "elem summed [b, h, w] =
        csum (map (\<lambda>k. cmul (elem (ifft E resid) [b, k, h, w])
                            (cconj (elem (maps X) [b, k, h, w]))) [0..<C])"
      unfolding m .
  qed
  have gel: "\<forall>b h w. b < B \<and> h < H \<and> w < W \<longrightarrow>
          elem G [b, 0, h, w] =
            fst (csum (map (\<lambda>k. cmul (elem (ifft E resid) [b, k, h, w])
                                      (cconj (elem (maps X) [b, k, h, w]))) [0..<C]))
        \<and> elem G [b, 1, h, w] =
            snd (csum (map (\<lambda>k. cmul (elem (ifft E resid) [b, k, h, w])
                                      (cconj (elem (maps X) [b, k, h, w]))) [0..<C]))"
    using G(3) sel by simp
  have run: "dc_gradient E A X mv x = Inr (unnormalize E G mv)"
    using re(1) im(1) c(1) resid(1) bk(1) summed(1) G(1)
    by (simp add: dc_gradient_def measurement_gradient_def forward_operator_def bindE_def)
  from c(2) cel resid(2) rel G(2) gel run show ?thesis by blast
qed

lemma grad_env_ok:
  "collaborators_ok grad_env e2e_args grad_batch grad_mvue 1 1 1 2"
  by (simp add: collaborators_ok_def grad_env_def stub_env_def stub_forward_def grad_batch_def
      const_tensor_def)

lemma indices_1212: "indices [1, 2, 1, 2] = [[0, 0, 0, 0], [0, 0, 0, 1], [0, 1, 0, 0], [0, 1, 0, 1]]"
  by (simp add: upt_rec)

lemma sqrt_36: "sqrt 36 = 6"
  by (rule real_sqrt_unique) simp_all

lemma sqrt_4: "sqrt 4 = 2"
  by (rule real_sqrt_unique) simp_all

text \<open>
  C2. At an outer step \<open>step\<close> within the noise schedule, the inner iterations run at the
  step size of line 82, \<open>step_lr * (sigmas[step] / sigmas[-1])\<^sup>2\<close>, and with the label
  \<open>step\<close> for every image of the batch. Iteration number \<open>k\<close> of that step, counted from
  0, starts from the candidate \<open>xt sk\<close> that \<open>k\<close> iterations have made of the candidate
  of the step, and replaces every entry by
  \<open>xt + step_size * (p_grad - meas_grad) + noise\<close>, where \<open>p_grad\<close> is the answer of the
  score network for that candidate and the labels; \<open>meas_grad\<close> is the data-consistency
  gradient \<open>G\<close> of that candidate (the residual of the measurement of the normalised
  candidate, transformed back, multiplied by the conjugate maps and summed over the coils),
  unnormalised, divided by its norm, multiplied by the norm of \<open>p_grad\<close> and by the mixing
  weight; and \<open>noise\<close> is the entry of a tensor drawn for this iteration alone (the
  generator's count is that of the step plus \<open>k\<close>, and goes up by one), times the square
  root of twice the step size. The sampler runs these steps, from \<open>start_iter + 1\<close> on, on
  the candidate first drawn.
\<close>

theorem langevin_update_rule:
  fixes cfg :: config and sigmas :: "real list" and step :: int and B :: nat
    and ss :: fl and labels :: "int list"
  defines "ss \<equiv> fmul (Fin (step_lr cfg))
                   (fmul (fdiv (Fin (sigmas ! nat step)) (Fin (last sigmas)))
                         (fdiv (Fin (sigmas ! nat step)) (Fin (last sigmas))))"
    and "labels \<equiv> replicate B step"
  assumes ok: "collaborators_ok E A X mv B C H W"
    and sh: "shape (xt st) = [B, 2, H, W]"
    and st: "0 \<le> step" "step < int (length sigmas)"
    and k: "k < nat (inner_count cfg step)"
  shows "\<exists>s0 sk sk' c resid G.
      xt s0 = xt st \<and> rng s0 = rng st \<and> score_log s0 = score_log st
    \<and> outer_body E cfg A idx X mv sigmas step st =
        inner_loop E cfg A X mv ss labels (nat (inner_count cfg step)) s0
    \<and> inner_loop E cfg A X mv ss labels k s0 = Inr sk
    \<and> inner_loop E cfg A X mv ss labels (Suc k) s0 = Inr sk'
    \<and> shape (xt sk) = [B, 2, H, W] \<and> rng sk = rng st + k
    \<and> rng sk' = Suc (rng sk) \<and> score_log sk' = score_log sk @ [labels]
    \<and> shape c = [B, H, W]
    \<and> (\<forall>b h w. b < B \<and> h < H \<and> w < W \<longrightarrow>
          elem c [b, h, w] =
            (elem (normalize E (xt sk) mv) [b, 0, h, w], elem (normalize E (xt sk) mv) [b, 1, h, w]))
    \<and> shape resid = [B, C, H, W]
    \<and> (\<forall>b k h w. b < B \<and> k < C \<and> h < H \<and> w < W \<longrightarrow>
          elem resid [b, k, h, w] =
            csub (elem (MulticoilForwardMRI E (orientation A) c (maps X) (mask X)) [b, k, h, w])
                 (elem (ground_truth X) [b, k, h, w]))
    \<and> shape G = [B, 2, H, W]
    \<and> (\<forall>b h w. b < B \<and> h < H \<and> w < W \<longrightarrow>
          elem G [b, 0, h, w] =
            fst (csum (map (\<lambda>k. cmul (elem (ifft E resid) [b, k, h, w])
                                      (cconj (elem (maps X) [b, k, h, w]))) [0..<C]))
        \<and> elem G [b, 1, h, w] =
            snd (csum (map (\<lambda>k. cmul (elem (ifft E resid) [b, k, h, w])
                                      (cconj (elem (maps X) [b, k, h, w]))) [0..<C])))
    \<and> (\<forall>i. valid_index [B, 2, H, W] i \<longrightarrow>
          elem (xt sk') i =
            fadd (fadd (elem (xt sk) i)
                       (fmul ss
                          (fsub (elem (score E (xt sk) labels) i)
                                (fmul (fmul (fdiv (elem (unnormalize E G mv) i)
                                                  (tnorm (unnormalize E G mv)))
                                            (tnorm (score E (xt sk) labels)))
                                      (Fin (mse cfg))))))
                 (fmul (Fin (randn E (rng sk) i)) (fsqrt (fmul ss (Fin 2)))))
    \<and> langevin E cfg A idx X mv sigmas st0 =
        run_steps (outer_body E cfg A idx X mv sigmas)
          [max 0 (start_iter cfg + 1)..num_classes cfg - 1] (initial_candidate E cfg st0)"
proof -
  let ?s0 = "if step mod log_interval cfg = 0
             then st\<lparr>info_log := info_log st @ [BatchStep idx step]\<rparr> else st"
  have s0: "xt ?s0 = xt st" "rng ?s0 = rng st" "score_log ?s0 = score_log st" by simp_all
  have sh0: "shape (xt ?s0) = [B, 2, H, W]" using sh by simp
  have lb: "labels_at (xt ?s0) step = Inr labels"
    using sh0 by (simp add: labels_at_def labels_def)
  have sz: "step_size_at cfg sigmas step = Inr ss"
    using step_size_at_ok [OF st] by (simp add: ss_def)
  have ob: "outer_body E cfg A idx X mv sigmas step st =
      inner_loop E cfg A X mv ss labels (nat (inner_count cfg step)) ?s0"
    using lb sz unfolding outer_body_def Let_def bindE_def by simp
  from inner_loop_ok [OF ok sh0, of cfg ss labels k]
  obtain sk where sk: "inner_loop E cfg A X mv ss labels k ?s0 = Inr sk"
      "shape (xt sk) = [B, 2, H, W]"
    by blast
  from inner_loop_log [OF sk(1)] have rk: "rng sk = rng st + k" by simp
  from dc_gradient_elems [OF ok sk(2)]
  obtain c resid G where el: "shape c = [B, H, W]"
      "\<forall>b h w. b < B \<and> h < H \<and> w < W \<longrightarrow>
          elem c [b, h, w] =
            (elem (normalize E (xt sk) mv) [b, 0, h, w], elem (normalize E (xt sk) mv) [b, 1, h, w])"
      "shape resid = [B, C, H, W]"
      "\<forall>b k h w. b < B \<and> k < C \<and> h < H \<and> w < W \<longrightarrow>
          elem resid [b, k, h, w] =
            csub (elem (MulticoilForwardMRI E (orientation A) c (maps X) (mask X)) [b, k, h, w])
                 (elem (ground_truth X) [b, k, h, w])"
      "shape G = [B, 2, H, W]"
      "\<forall>b h w. b < B \<and> h < H \<and> w < W \<longrightarrow>
          elem G [b, 0, h, w] =
            fst (csum (map (\<lambda>k. cmul (elem (ifft E resid) [b, k, h, w])
                                      (cconj (elem (maps X) [b, k, h, w]))) [0..<C]))
        \<and> elem G [b, 1, h, w] =
            snd (csum (map (\<lambda>k. cmul (elem (ifft E resid) [b, k, h, w])
                                      (cconj (elem (maps X) [b, k, h, w]))) [0..<C]))"
      and dc: "dc_gradient E A X mv (xt sk) = Inr (unnormalize E G mv)"
    by blast
  from inner_iteration_ok [OF ok sk(2), of cfg ss labels] dc
  obtain sk' where it: "inner_iteration E cfg A X mv ss labels sk = Inr sk'"
      "rng sk' = Suc (rng sk)" "score_log sk' = score_log sk @ [labels]"
      "\<forall>i. valid_index [B, 2, H, W] i \<longrightarrow>
          elem (xt sk') i =
            fadd (fadd (elem (xt sk) i)
                       (fmul ss (fsub (elem (score E (xt sk) labels) i)
                          (elem (weighted cfg (match_norm (unnormalize E G mv)
                                   (score E (xt sk) labels))) i))))
                 (elem (scaled_noise E ss sk) i)"
    by auto
  have up: "\<forall>i. valid_index [B, 2, H, W] i \<longrightarrow>
          elem (xt sk') i =
            fadd (fadd (elem (xt sk) i)
                       (fmul ss
                          (fsub (elem (score E (xt sk) labels) i)
                                (fmul (fmul (fdiv (elem (unnormalize E G mv) i)
                                                  (tnorm (unnormalize E G mv)))
                                            (tnorm (score E (xt sk) labels)))
                                      (Fin (mse cfg))))))
                 (fmul (Fin (randn E (rng sk) i)) (fsqrt (fmul ss (Fin 2))))"
    using it(4) by (simp add: weighted_def match_norm_def elem_scaled_noise)
  have nx: "inner_loop E cfg A X mv ss labels (Suc k) ?s0 = Inr sk'"
    unfolding inner_loop_snoc using sk(1) it(1) by (simp add: bindE_def)
  have lv: "langevin E cfg A idx X mv sigmas st0 =
      run_steps (outer_body E cfg A idx X mv sigmas)
        [max 0 (start_iter cfg + 1)..num_classes cfg - 1] (initial_candidate E cfg st0)"
    by (rule langevin_steps)
  show ?thesis
    apply (rule exI [of _ ?s0], rule exI [of _ sk], rule exI [of _ sk'])
    apply (rule exI [of _ c], rule exI [of _ resid], rule exI [of _ G])
    using s0 ob sk rk it(2,3) el up nx lv
    apply (intro conjI)
    apply assumption+
    done
qed

text \<open>
  The scenario of the two gradients, at step 1, the only step not skipped: the label is 1,
  the step size one half, every entry of the candidate 1, of the score 3 (norm 6) and of
  the data-consistency gradient 1 (norm 2), so that \<open>meas_grad\<close> is 6 and the noise 1:
  the first iteration leaves \<open>1 + (3 - 6) / 2 + 1\<close>.
\<close>

theorem langevin_update_rule_witness:
  "\<exists>s0 sk'.
      outer_body grad_env grad_cfg e2e_args 0 grad_batch grad_mvue [2, 1] 1
          (initial_candidate grad_env grad_cfg start_state) =
        inner_loop grad_env grad_cfg e2e_args grad_batch grad_mvue (Fin (1 / 2)) [1] 3 s0
    \<and> xt s0 = xt (initial_candidate grad_env grad_cfg start_state)
    \<and> inner_loop grad_env grad_cfg e2e_args grad_batch grad_mvue (Fin (1 / 2)) [1] (Suc 0) s0 = Inr sk'
    \<and> score_log sk' = [[1]]
    \<and> elem (xt sk') [0, 1, 0, 1] = Fin (1 / 2)
    \<and> langevin grad_env grad_cfg e2e_args 0 grad_batch grad_mvue [2, 1] start_state =
        outer_body grad_env grad_cfg e2e_args 0 grad_batch grad_mvue [2, 1] 1
          (initial_candidate grad_env grad_cfg start_state)"
proof -
  let ?st = "initial_candidate grad_env grad_cfg start_state"
  have sh: "shape (xt ?st) = [1, 2, 1, 2]"
    by (simp add: initial_candidate_def randn_tensor_def grad_cfg_def)
  have x1: "\<And>i. elem (xt ?st) i = Fin 1"
    by (simp add: initial_candidate_def randn_tensor_def grad_env_def stub_env_def)
  have k: "0 < nat (inner_count grad_cfg 1)" by (simp add: inner_count_def)
  have n3: "nat (inner_count grad_cfg 1) = 3" by (simp add: inner_count_def)
  have ss: "fmul (Fin (step_lr grad_cfg))
              (fmul (fdiv (Fin ([2, 1] ! nat 1)) (Fin (last [2, 1])))
                    (fdiv (Fin ([2, 1] ! nat 1)) (Fin (last [2, 1])))) = Fin (1 / 2)"
    by (simp add: grad_cfg_def)
  have i1: "(0::int) \<le> 1" by simp
  have i2: "(1::int) < int (length [2::real, 1])" by simp
  have rp: "replicate 1 (1::int) = [1]" by simp
  note t = langevin_update_rule [OF grad_env_ok sh i1 i2 k, of 0 start_state, unfolded ss n3 rp]
  from t
  obtain s0 sk sk' c resid G where
        a: "xt s0 = xt ?st" "rng s0 = rng ?st" "score_log s0 = score_log ?st"
    and ob: "outer_body grad_env grad_cfg e2e_args 0 grad_batch grad_mvue [2, 1] 1 ?st =
        inner_loop grad_env grad_cfg e2e_args grad_batch grad_mvue (Fin (1 / 2)) [1] 3 s0"
    and l0: "inner_loop grad_env grad_cfg e2e_args grad_batch grad_mvue (Fin (1 / 2)) [1] 0 s0 = Inr sk"
    and l1: "inner_loop grad_env grad_cfg e2e_args grad_batch grad_mvue (Fin (1 / 2)) [1] (Suc 0) s0 = Inr sk'"
    and lg: "score_log sk' = score_log sk @ [[1]]"
    and c: "\<forall>b h w. b < 1 \<and> h < 1 \<and> w < 2 \<longrightarrow>
          elem c [b, h, w] =
            (elem (normalize grad_env (xt sk) grad_mvue) [b, 0, h, w],
             elem (normalize grad_env (xt sk) grad_mvue) [b, 1, h, w])"
    and r: "\<forall>b k h w. b < 1 \<and> k < 1 \<and> h < 1 \<and> w < 2 \<longrightarrow>
          elem resid [b, k, h, w] =
            csub (elem (MulticoilForwardMRI grad_env (orientation e2e_args) c (maps grad_batch)
                          (mask grad_batch)) [b, k, h, w])
                 (elem (ground_truth grad_batch) [b, k, h, w])"
    and g: "\<forall>b h w. b < 1 \<and> h < 1 \<and> w < 2 \<longrightarrow>
          elem G [b, 0, h, w] =
            fst (csum (map (\<lambda>k. cmul (elem (ifft grad_env resid) [b, k, h, w])
                                      (cconj (elem (maps grad_batch) [b, k, h, w]))) [0..<1]))
        \<and> elem G [b, 1, h, w] =
            snd (csum (map (\<lambda>k. cmul (elem (ifft grad_env resid) [b, k, h, w])
                                      (cconj (elem (maps grad_batch) [b, k, h, w]))) [0..<1]))"
    and gs: "shape G = [1, 2, 1, 2]"
    and u: "\<forall>i. valid_index [1, 2, 1, 2] i \<longrightarrow>
          elem (xt sk') i =
            fadd (fadd (elem (xt sk) i)
                       (fmul (Fin (1 / 2))
                          (fsub (elem (score grad_env (xt sk) [1]) i)
                                (fmul (fmul (fdiv (elem (unnormalize grad_env G grad_mvue) i)
                                                  (tnorm (unnormalize grad_env G grad_mvue)))
                                            (tnorm (score grad_env (xt sk) [1])))
                                      (Fin (mse grad_cfg))))))
                 (fmul (Fin (randn grad_env (rng sk) i)) (fsqrt (fmul (Fin (1 / 2)) (Fin 2))))"
    and lv: "langevin grad_env grad_cfg e2e_args 0 grad_batch grad_mvue [2, 1] start_state =
        run_steps (outer_body grad_env grad_cfg e2e_args 0 grad_batch grad_mvue [2, 1])
          [max 0 (start_iter grad_cfg + 1)..num_classes grad_cfg - 1] ?st"
    apply (elim exE conjE)
    apply (rule that)
    apply assumption+
    done
  from l0 have sk: "sk = s0" by simp
  have xs: "\<And>i. elem (xt sk) i = Fin 1" unfolding sk a(1) by (rule x1)
  have ce: "\<And>w. w < 2 \<Longrightarrow> elem c [0, 0, w] = (Fin 1, Fin 1)"
    using c xs by (simp add: grad_env_def stub_env_def)
  have re: "\<And>w. w < 2 \<Longrightarrow> elem resid [0, 0, 0, w] = (Fin 1, Fin 1)"
    using r ce by (simp add: grad_env_def stub_env_def stub_forward_def grad_batch_def const_tensor_def)
  have ge: "\<And>w. w < 2 \<Longrightarrow> elem G [0, 0, 0, w] = Fin 1 \<and> elem G [0, 1, 0, w] = Fin 1"
    using g re by (simp add: grad_env_def stub_env_def grad_batch_def const_tensor_def csum_def)
  have un: "unnormalize grad_env G grad_mvue = G" by (simp add: grad_env_def stub_env_def)
  have ng: "tnorm (unnormalize grad_env G grad_mvue) = Fin 2"
    unfolding un tnorm_def gs indices_1212 using ge [of 0] ge [of 1]
    by (simp add: fsum_def sqrt_4)
  have sp: "shape (xt sk) = [1, 2, 1, 2]" unfolding sk a(1) by (rule sh)
  have pe: "\<And>i. elem (score grad_env (xt sk) [1]) i = Fin 3"
    by (simp add: grad_env_def stub_env_def tmap_def)
  have ps: "shape (score grad_env (xt sk) [1]) = [1, 2, 1, 2]"
    using sp by (simp add: grad_env_def stub_env_def)
  have np: "tnorm (score grad_env (xt sk) [1]) = Fin 6"
    unfolding tnorm_def ps indices_1212 pe by (simp add: fsum_def sqrt_36)
  have vi: "valid_index [1, 2, 1, 2] [0, 1, 0, 1]" by (simp add: valid_index_def)
  have e: "elem (xt sk') [0, 1, 0, 1] = Fin (1 / 2)"
    using u [rule_format, OF vi] ge [of 1] xs
    unfolding ng np pe
    by (simp add: grad_env_def stub_env_def grad_cfg_def)
  have sl: "score_log sk' = [[1]]"
    unfolding lg sk a(3) by (simp add: initial_candidate_def start_state_def)
  have bi: "\<And>x :: error + sampler_state. bindE x Inr = x"
    by (simp add: bindE_def split: sum.splits)
  have rg: "[max 0 (start_iter grad_cfg + 1)..num_classes grad_cfg - 1] = [1]"
    by (simp add: grad_cfg_def upto_rec1)
  have rn: "\<And>body :: int \<Rightarrow> sampler_state \<Rightarrow> error + sampler_state. run_steps body [] = Inr"
    by (rule ext) simp
  have lg2: "langevin grad_env grad_cfg e2e_args 0 grad_batch grad_mvue [2, 1] start_state =
        outer_body grad_env grad_cfg e2e_args 0 grad_batch grad_mvue [2, 1] 1 ?st"
    unfolding lv rg by (simp add: rn bi)
  from ob a(1) l1 sl e lg2 show ?thesis by blast
qed


section \<open>After the loop\<close>

lemma to_display_ok:
  assumes sh: "shape x = [B, 2, H, W]" and im: "image_size cfg = (H, W)" and h: "0 < H" and w: "0 < W"
  shows "\<exists>d. to_display cfg x = Inr d \<and> shape d = [B, H, W]"
proof -
  obtain p where p: "permute_0231 x = Inr p" "shape p = [B, H, W, 2]"
    using sh by (simp add: permute_0231_def)
  have m: "H * W * 2 \<noteq> 0" using h w by simp
  have n: "prod_list (shape p) = B * (H * W * 2)" using p(2) by simp
  obtain r where r: "reshape_hw2 (image_size cfg) p = Inr r" "shape r = [B, H, W, 2]"
    using m h w unfolding reshape_hw2_def Let_def n im by simp
  obtain c where c: "view_as_complex r = Inr c" "shape c = [B, H, W]"
    using r(2) by (simp add: view_as_complex_def)
  obtain d where d: "flip2 (tmap cabs c) = Inr d" "shape d = [B, H, W]"
    using c(2) by (simp add: flip2_def Let_def)
  show ?thesis using p(1) r(1) c(1) d by (simp add: to_display_def bindE_def)
qed

lemma reconstruct_ok:
  assumes ok: "collaborators_ok E A X (get_mvue E (ground_truth X) (maps X)) (batch_size cfg) C
                 (fst (image_size cfg)) (snd (image_size cfg))"
    and sg: "num_classes cfg \<le> int (length sigmas)"
    and h: "0 < fst (image_size cfg)" and w: "0 < snd (image_size cfg)"
  shows "\<exists>d s. reconstruct E cfg A idx X sigmas st = Inr (d, s) \<and>
           shape d = [batch_size cfg, fst (image_size cfg), snd (image_size cfg)]"
proof -
  let ?mv = "get_mvue E (ground_truth X) (maps X)"
  let ?S = "[batch_size cfg, 2, fst (image_size cfg), snd (image_size cfg)]"
  from langevin_ok [OF ok sg]
  obtain s where s: "langevin E cfg A idx X ?mv sigmas st = Inr s" "shape (xt s) = ?S"
    by blast
  have "shape (normalize E (xt s) ?mv) = ?S"
    using ok s(2) by (simp add: collaborators_ok_def)
  from to_display_ok [OF this _ h w, of cfg]
  obtain d where d: "to_display cfg (normalize E (xt s) ?mv) = Inr d"
      "shape d = [batch_size cfg, fst (image_size cfg), snd (image_size cfg)]"
    by auto
  show ?thesis using s(1) d by (simp add: reconstruct_def bindE_def Let_def)
qed

lemma indices_nonempty: "0 \<notin> set s \<Longrightarrow> indices s \<noteq> []"
proof (induction s)
  case Nil
  show ?case by simp
next
  case (Cons n ns)
  then have n: "0 < n" and ns: "indices ns \<noteq> []" by simp_all
  from n have "[0..<n] = 0 # [1..<n]" by (simp add: upt_rec)
  then show ?case using ns by simp
qed

lemma tmax_ok: "0 \<notin> set (shape t) \<Longrightarrow> \<exists>v. tmax t = Inr v"
  using indices_nonempty [of "shape t"]
  by (cases "indices (shape t)") (simp_all add: tmax_def)

lemma to_uint8_image_ok:
  assumes "0 \<notin> set (shape img)"
  shows "\<exists>u. to_uint8_image img = Inr u \<and> shape u = filter (\<lambda>d. d \<noteq> 1) (shape img)"
proof -
  have "0 \<notin> set (shape (squeeze img))" using assms by (simp add: squeeze_def)
  from tmax_ok [OF this] obtain m where "tmax (squeeze img) = Inr m" by blast
  then show ?thesis by (simp add: to_uint8_image_def bindE_def Let_def squeeze_def)
qed

lemma denoise_ok:
  assumes "0 \<notin> set (shape orig_img)"
  shows "\<exists>ot rt. denoise cfg orig_img recon_img = Inr (ot, rt) \<and>
           shape ot = shape orig_img \<and> shape rt = shape recon_img"
proof (cases "denoise_005 cfg")
  case True
  from tmax_ok [OF assms] obtain m where "tmax orig_img = Inr m" by blast
  then show ?thesis using True by (simp add: denoise_def bindE_def Let_def threshold_def)
next
  case False
  then show ?thesis by (simp add: denoise_def)
qed

lemma edit_ok:
  assumes o: "0 \<notin> set (shape orig_img)" and r: "0 \<notin> set (shape recon_img)"
    and c: "circle_mask cfg \<longrightarrow> length (filter (\<lambda>d. d \<noteq> 1) (shape recon_img)) = 2"
  shows "\<exists>ot rt onp rnp. edit cfg orig_img recon_img = Inr (ot, rt, onp, rnp) \<and>
           shape rnp = filter (\<lambda>d. d \<noteq> 1) (shape recon_img)"
proof -
  from denoise_ok [OF o, of cfg recon_img]
  obtain ot rt where d: "denoise cfg orig_img recon_img = Inr (ot, rt)"
      "shape ot = shape orig_img" "shape rt = shape recon_img"
    by blast
  from to_uint8_image_ok [of ot] o d(2)
  obtain onp where onp: "to_uint8_image ot = Inr onp" by auto
  from to_uint8_image_ok [of rt] r d(3)
  obtain rnp where rnp: "to_uint8_image rt = Inr rnp"
      "shape rnp = filter (\<lambda>d. d \<noteq> 1) (shape recon_img)"
    by auto
  have "\<exists>m. masking_step cfg rnp = Inr m \<and> shape m = shape rnp"
  proof (cases "circle_mask cfg")
    case True
    with c rnp(2) have "length (shape rnp) = 2" by simp
    then obtain h w where "shape rnp = [h, w]"
      by (cases "shape rnp"; cases "tl (shape rnp)") auto
    then show ?thesis using True by (simp add: masking_step_def circle_masking_def)
  next
    case False
    then show ?thesis by (simp add: masking_step_def)
  qed
  then obtain m where "masking_step cfg rnp = Inr m" "shape m = shape rnp" by blast
  then show ?thesis using d(1) onp rnp by (simp add: edit_def bindE_def)
qed

lemma slice_images_ok:
  assumes d: "shape disp = [B, H, W]" and m: "shape (mvue X) = [B, 1, H, W]"
    and i: "i < B" and h: "0 < H" and w: "0 < W"
    and c: "circle_mask cfg \<longrightarrow> H \<noteq> 1 \<and> W \<noteq> 1"
  shows "\<exists>ot rt onp rnp. slice_images cfg X disp i = Inr (ot, rt, onp, rnp) \<and>
           shape rnp = filter (\<lambda>d. d \<noteq> 1) [H, W]"
proof -
  obtain r where r: "select0 i disp = Inr r" "shape r = [H, W]"
    using d i by (simp add: select0_def)
  obtain mi where mi: "select0 i (mvue X) = Inr mi" "shape mi = [1, H, W]"
    using m i by (simp add: select0_def)
  obtain orig where orig: "flip2 (tmap cabs mi) = Inr orig" "shape orig = [1, H, W]"
    using mi(2) by (simp add: flip2_def Let_def)
  have so: "0 \<notin> set (shape orig)" using orig(2) h w by simp
  have sr: "0 \<notin> set (shape (unsqueeze0 r))" using r(2) h w by (simp add: unsqueeze0_def)
  have cm: "circle_mask cfg \<longrightarrow> length (filter (\<lambda>d. d \<noteq> 1) (shape (unsqueeze0 r))) = 2"
    using c r(2) by (simp add: unsqueeze0_def)
  have f: "filter (\<lambda>d. d \<noteq> 1) (shape (unsqueeze0 r)) = filter (\<lambda>d. d \<noteq> 1) [H, W]"
    using r(2) by (simp add: unsqueeze0_def)
  from edit_ok [OF so sr cm]
  show ?thesis using r(1) mi(1) orig(1) f by (simp add: slice_images_def bindE_def)
qed


lemma e2e_reconstruct:
  "\<exists>d s. reconstruct stub_env e2e_cfg e2e_args 0 e2e_batch e2e_sigmas start_state = Inr (d, s)"
proof -
  have ok: "collaborators_ok stub_env e2e_args e2e_batch
      (get_mvue stub_env (ground_truth e2e_batch) (maps e2e_batch)) (batch_size e2e_cfg) 1
      (fst (image_size e2e_cfg)) (snd (image_size e2e_cfg))"
    using stub_env_ok by (simp add: e2e_mvue_def)
  have sg: "num_classes e2e_cfg \<le> int (length e2e_sigmas)"
    by (simp add: e2e_cfg_def e2e_sigmas_def)
  have h: "0 < fst (image_size e2e_cfg)" and w: "0 < snd (image_size e2e_cfg)"
    by (simp_all add: e2e_cfg_def)
  from reconstruct_ok [OF ok sg h w] show ?thesis by blast
qed

lemma scaled_env_ok:
  "collaborators_ok scaled_env e2e_args e2e_batch
      (get_mvue scaled_env (ground_truth e2e_batch) (maps e2e_batch)) (batch_size e2e_cfg) 1
      (fst (image_size e2e_cfg)) (snd (image_size e2e_cfg))"
  by (simp add: collaborators_ok_def scaled_env_def stub_env_def stub_forward_def e2e_batch_def
      e2e_cfg_def const_tensor_def scale_normalize_def scale_unnormalize_def)

text \<open>
  C4, as amended. The scaling of the candidate after the annealing loop (line 99) is
  \<open>normalize\<close> with the estimated reference of the batch, and so is the scaling of the
  candidate before it is measured in every inner iteration (line 88): the same function of
  the same reference, not its inverse. A reconstruction that returns has sampled the
  candidate, scaled it by \<open>normalize\<close> and displayed it; the data-consistency gradient is
  the gradient of the measurement of the candidate scaled by \<open>normalize\<close>.
\<close>

theorem final_rescale_is_normalize:
  assumes "reconstruct E cfg A idx X sigmas st = Inr (d, s)"
  shows "langevin E cfg A idx X (get_mvue E (ground_truth X) (maps X)) sigmas st = Inr s
       \<and> to_display cfg (normalize E (xt s) (get_mvue E (ground_truth X) (maps X))) = Inr d
       \<and> dc_gradient E A X (get_mvue E (ground_truth X) (maps X)) x =
           measurement_gradient E A X (get_mvue E (ground_truth X) (maps X))
             (normalize E x (get_mvue E (ground_truth X) (maps X)))"
  using assms
  by (auto simp: reconstruct_def dc_gradient_def bindE_def Let_def split: sum.splits)

text \<open>
  A run in which \<open>normalize\<close> is not the identity: it multiplies by the largest magnitude
  of the reference.
\<close>

theorem final_rescale_is_normalize_witness:
  "\<exists>d s. reconstruct scaled_env e2e_cfg e2e_args 0 e2e_batch e2e_sigmas start_state = Inr (d, s)
     \<and> langevin scaled_env e2e_cfg e2e_args 0 e2e_batch e2e_mvue e2e_sigmas start_state = Inr s
     \<and> to_display e2e_cfg (scale_normalize (xt s) e2e_mvue) = Inr d
     \<and> shape d = [1, 8, 8]"
proof -
  have sg: "num_classes e2e_cfg \<le> int (length e2e_sigmas)"
    by (simp add: e2e_cfg_def e2e_sigmas_def)
  have h: "0 < fst (image_size e2e_cfg)" and w: "0 < snd (image_size e2e_cfg)"
    by (simp_all add: e2e_cfg_def)
  from reconstruct_ok [OF scaled_env_ok sg h w, of 0 start_state] obtain d s where
    r: "reconstruct scaled_env e2e_cfg e2e_args 0 e2e_batch e2e_sigmas start_state = Inr (d, s)"
    and sd: "shape d = [1, 8, 8]"
    by (auto simp: e2e_cfg_def)
  have mv: "get_mvue scaled_env (ground_truth e2e_batch) (maps e2e_batch) = e2e_mvue"
    by (simp add: scaled_env_def stub_env_def e2e_mvue_def)
  have nm: "normalize scaled_env = scale_normalize"
    by (simp add: scaled_env_def)
  from final_rescale_is_normalize [OF r] r sd show ?thesis
    unfolding mv nm by blast
qed

text \<open>
  The claim as stated fails where \<open>normalize\<close> multiplies by the magnitude 2 of the
  reference: scaling the entry 1 as an inner iteration does, and then as line 99 does,
  gives 4.
\<close>

theorem final_rescale_is_normalize_counterexample:
  "elem ex_xt [0, 0, 0, 0] = Fin 1
   \<and> elem (normalize scaled_env (normalize scaled_env ex_xt ex_mvue) ex_mvue) [0, 0, 0, 0] = Fin 4"
  by (simp add: scaled_env_def stub_env_def scale_normalize_def reference_scale_def tmax_def
      ex_xt_def ex_mvue_def const_tensor_def tmap_def upt_rec)


section \<open>The circular mask\<close>

lemma circle_masking_outside:
  assumes "circle_masking img = Inr m" and "165\<^sup>2 < (int x - 192)\<^sup>2 + (int y - 192)\<^sup>2"
  shows "elem m [y, x] = 0"
proof -
  from assms(1) obtain h w where "shape img = [h, w]"
    by (auto simp: circle_masking_def split: list.splits)
  with assms show ?thesis
    by (auto simp: circle_masking_def cv2_circle_def)
qed

text \<open>
  C9. When \<open>circle_mask\<close> is enabled, every pixel of the reconstructed 8-bit image that
  \<open>edit\<close> returns is zero where its distance from the centre (192, 192) is more than 165;
  when it is disabled, \<open>edit\<close> returns the 8-bit image as the conversion made it.
\<close>

theorem circle_mask_zero_outside:
  assumes "edit cfg orig_img recon_img = Inr (orig_th, recon_th, orig_np, recon_np)"
  shows "(circle_mask cfg \<longrightarrow>
            (\<forall>y x. 165\<^sup>2 < (int x - 192)\<^sup>2 + (int y - 192)\<^sup>2 \<longrightarrow> elem recon_np [y, x] = 0))
       \<and> (\<not> circle_mask cfg \<longrightarrow> to_uint8_image recon_th = Inr recon_np)"
proof -
  from assms obtain rnp where
    u: "to_uint8_image recon_th = Inr rnp" and m: "masking_step cfg rnp = Inr recon_np"
    by (auto simp: edit_def bindE_def split: sum.splits prod.splits)
  show ?thesis
  proof (cases "circle_mask cfg")
    case True
    with m have "circle_masking rnp = Inr recon_np" by (simp add: masking_step_def)
    then show ?thesis using True circle_masking_outside by blast
  next
    case False
    with m u show ?thesis by (simp add: masking_step_def)
  qed
qed

theorem circle_mask_zero_outside_witness:
  "(\<exists>ot rt onp rnp. edit mask_cfg ex_img ex_img = Inr (ot, rt, onp, rnp) \<and> elem rnp [0, 1] = 0)
   \<and> (\<exists>ot rt onp rnp. edit e2e_cfg ex_img ex_img = Inr (ot, rt, onp, rnp)
         \<and> to_uint8_image rt = Inr rnp)"
proof -
  have s: "0 \<notin> set (shape ex_img)" by (simp add: ex_img_def const_tensor_def)
  have c1: "circle_mask mask_cfg \<longrightarrow> length (filter (\<lambda>d. d \<noteq> 1) (shape ex_img)) = 2"
    by (simp add: ex_img_def const_tensor_def)
  have c2: "circle_mask e2e_cfg \<longrightarrow> length (filter (\<lambda>d. d \<noteq> 1) (shape ex_img)) = 2"
    by (simp add: ex_img_def const_tensor_def)
  from edit_ok [OF s s c1] obtain ot rt onp rnp where
    e1: "edit mask_cfg ex_img ex_img = Inr (ot, rt, onp, rnp)" by blast
  have on: "circle_mask mask_cfg" by (simp add: mask_cfg_def)
  have out: "(165::int)\<^sup>2 < (int 1 - 192)\<^sup>2 + (int 0 - 192)\<^sup>2" by simp
  from circle_mask_zero_outside [OF e1] on out have z: "elem rnp [0, 1] = 0" by blast
  from edit_ok [OF s s c2] obtain ot' rt' onp' rnp' where
    e2: "edit e2e_cfg ex_img ex_img = Inr (ot', rt', onp', rnp')" by blast
  have off: "\<not> circle_mask e2e_cfg" by (simp add: e2e_cfg_def)
  from circle_mask_zero_outside [OF e2] off have "to_uint8_image rt' = Inr rnp'" by blast
  with e1 z e2 show ?thesis by blast
qed


section \<open>Scores and files\<close>

lemma writes_ok_append:
  "writes_ok E n (a @ b) = (writes_ok E n a \<and> writes_ok E (n + length a) b)"
  by (induction a arbitrary: n) simp_all

lemma saved_effect_none: "saved_effect E A 0 res None res"
  by (simp add: saved_effect_def)

lemma saved_effect_raised:
  "saved_effect E A n res (Some e) res' \<Longrightarrow> saved_effect E A m res (Some e) res'"
  by (simp add: saved_effect_def)

lemma saved_effect_same:
  assumes "written res' = written res" "ssim_scores res' = ssim_scores res"
    "psnr_scores res' = psnr_scores res"
  shows "saved_effect E A n res (Some e) res'"
  using assms by (simp add: saved_effect_def)

lemma saved_effect_then:
  assumes a: "saved_effect E A n res None r1" and b: "saved_effect E A m r1 err res'"
  shows "saved_effect E A (n + m) res err res'"
proof -
  from a obtain ws1 where w1: "written r1 = written res @ ws1"
      "list_all (\<lambda>f. \<not> is_stats (snd f)) ws1" "writes_ok E (length (written res)) ws1"
      "length (ssim_scores r1) = length (ssim_scores res) + n"
      "length (psnr_scores r1) = length (psnr_scores res) + n"
      "length ws1 = (if save_images A then 2 * n else 0)"
      "save_images A \<and> 0 < n \<longrightarrow> font_available E"
    unfolding saved_effect_def by auto
  from b obtain ws2 where w2: "written res' = written r1 @ ws2"
      "list_all (\<lambda>f. \<not> is_stats (snd f)) ws2" "writes_ok E (length (written r1)) ws2"
      "err = None \<longrightarrow>
         length (ssim_scores res') = length (ssim_scores r1) + m \<and>
         length (psnr_scores res') = length (psnr_scores r1) + m \<and>
         length ws2 = (if save_images A then 2 * m else 0) \<and>
         (save_images A \<and> 0 < m \<longrightarrow> font_available E)"
      "save_images A \<and> \<not> font_available E \<longrightarrow>
         length ws2 \<le> 1 \<and>
         length (ssim_scores res') \<le> length (ssim_scores r1) + 1 \<and>
         length (psnr_scores res') \<le> length (psnr_scores r1) + 1"
    unfolding saved_effect_def by auto
  have n0: "save_images A \<and> \<not> font_available E \<longrightarrow> n = 0" using w1(7) by auto
  show ?thesis
    unfolding saved_effect_def
  proof (intro exI [of _ "ws1 @ ws2"] conjI)
    show "written res' = written res @ ws1 @ ws2" using w1(1) w2(1) by simp
    show "list_all (\<lambda>f. \<not> is_stats (snd f)) (ws1 @ ws2)" using w1(2) w2(2) by simp
    show "writes_ok E (length (written res)) (ws1 @ ws2)"
      using w1(1,3) w2(3) by (simp add: writes_ok_append)
    show "err = None \<longrightarrow>
       length (ssim_scores res') = length (ssim_scores res) + (n + m) \<and>
       length (psnr_scores res') = length (psnr_scores res) + (n + m) \<and>
       length (ws1 @ ws2) = (if save_images A then 2 * (n + m) else 0) \<and>
       (save_images A \<and> 0 < n + m \<longrightarrow> font_available E)"
      using w1(4-7) w2(4) by auto
    show "save_images A \<and> \<not> font_available E \<longrightarrow>
       length (ws1 @ ws2) \<le> 1 \<and>
       length (ssim_scores res') \<le> length (ssim_scores res) + 1 \<and>
       length (psnr_scores res') \<le> length (psnr_scores res) + 1"
      using n0 w1(4-6) w2(5) by auto
  qed
qed

lemma save_slice_effect:
  assumes "save_slice E cfg A X i ot rnp a b res = (err, res')" and sv: "save_images A"
  shows "ssim_scores res' = ssim_scores res \<and> psnr_scores res' = psnr_scores res \<and>
         (\<exists>ws. written res' = written res @ ws \<and> list_all (\<lambda>f. \<not> is_stats (snd f)) ws \<and>
               writes_ok E (length (written res)) ws \<and>
               (err = None \<longrightarrow> length ws = 2 \<and> font_available E) \<and>
               (\<not> font_available E \<longrightarrow> length ws \<le> 1))"
  using assms(1)
  by (auto simp: save_slice_def Let_def split: sum.splits if_splits)

lemma process_slice_effect:
  assumes "process_slice E cfg A X disp i res = (err, res')"
  shows "saved_effect E A 1 res err res'"
proof (cases "slice_images cfg X disp i")
  case (Inl e)
  with assms show ?thesis by (auto simp: process_slice_def intro: saved_effect_same)
next
  case (Inr imgs)
  obtain ot rt onp rnp where imgs: "imgs = (ot, rt, onp, rnp)" by (cases imgs) auto
  show ?thesis
  proof (cases "ssim E onp rnp")
    case (Inl e)
    with assms Inr imgs show ?thesis by (auto simp: process_slice_def intro: saved_effect_same)
  next
    case a: (Inr a)
    show ?thesis
    proof (cases "psnr E onp rnp")
      case (Inl e)
      with assms Inr imgs a show ?thesis
        by (auto simp: process_slice_def intro: saved_effect_same)
    next
      case b: (Inr b)
      let ?res1 = "res\<lparr>ssim_scores := ssim_scores res @ [a], psnr_scores := psnr_scores res @ [b]\<rparr>"
      show ?thesis
      proof (cases "save_images A")
        case True
        with assms Inr imgs a b have "save_slice E cfg A X i ot rnp a b ?res1 = (err, res')"
          by (simp add: process_slice_def Let_def)
        from save_slice_effect [OF this True] True show ?thesis
          unfolding saved_effect_def by auto
      next
        case False
        with assms Inr imgs a b show ?thesis
          by (auto simp: process_slice_def Let_def saved_effect_def)
      qed
    qed
  qed
qed

lemma slices_loop_effect:
  "slices_loop E cfg A X disp is res = (err, res') \<Longrightarrow> saved_effect E A (length is) res err res'"
proof (induction "is" arbitrary: res)
  case Nil
  then show ?case by (simp add: saved_effect_none)
next
  case (Cons i rest)
  obtain e1 r1 where p: "process_slice E cfg A X disp i res = (e1, r1)"
    by (cases "process_slice E cfg A X disp i res") auto
  note pe = process_slice_effect [OF p]
  show ?case
  proof (cases e1)
    case None
    with Cons.prems p have "slices_loop E cfg A X disp rest r1 = (err, res')" by simp
    from Cons.IH [OF this] have "saved_effect E A (length rest) r1 err res'" .
    moreover from pe None have "saved_effect E A 1 res None r1" by simp
    ultimately have "saved_effect E A (1 + length rest) res err res'"
      by (rule saved_effect_then [rotated])
    then show ?thesis by simp
  next
    case (Some e)
    with Cons.prems p have "err = Some e" "res' = r1" by simp_all
    with pe Some show ?thesis by (auto intro: saved_effect_raised)
  qed
qed

lemma batches_loop_effect:
  "batches_loop E cfg A sigmas idx Xs st res = (err, res') \<Longrightarrow>
   saved_effect E A (length Xs * batch_size cfg) res err res'"
proof (induction Xs arbitrary: idx st res)
  case Nil
  then show ?case by (simp add: saved_effect_none)
next
  case (Cons X rest)
  show ?case
  proof (cases "reconstruct E cfg A idx X sigmas st")
    case (Inl e)
    with Cons.prems show ?thesis by (auto intro: saved_effect_same)
  next
    case (Inr ds)
    obtain d s where ds: "ds = (d, s)" by (cases ds) auto
    obtain e1 r1 where sl: "slices_loop E cfg A X d [0..<batch_size cfg] res = (e1, r1)"
      by (cases "slices_loop E cfg A X d [0..<batch_size cfg] res") auto
    from slices_loop_effect [OF sl]
    have se: "saved_effect E A (batch_size cfg) res e1 r1" by simp
    show ?thesis
    proof (cases e1)
      case None
      with Cons.prems Inr ds sl
      have "batches_loop E cfg A sigmas (Suc idx) rest s r1 = (err, res')" by simp
      from Cons.IH [OF this]
      have "saved_effect E A (length rest * batch_size cfg) r1 err res'" .
      moreover from se None have "saved_effect E A (batch_size cfg) res None r1" by simp
      ultimately have "saved_effect E A (batch_size cfg + length rest * batch_size cfg) res err res'"
        by (rule saved_effect_then [rotated])
      then show ?thesis by simp
    next
      case (Some e)
      with Cons.prems Inr ds sl have "err = Some e" "res' = r1" by simp_all
      with se Some show ?thesis by (auto intro: saved_effect_raised)
    qed
  qed
qed

lemma process_slice_scores:
  assumes "slice_images cfg X disp i = Inr (ot, rt, onp, rnp)"
    and "ssim E onp rnp = Inr a" and "psnr E onp rnp = Inr b"
  shows "ssim_scores (snd (process_slice E cfg A X disp i r)) = ssim_scores r @ [a] \<and>
         psnr_scores (snd (process_slice E cfg A X disp i r)) = psnr_scores r @ [b]"
proof (cases "save_images A")
  case True
  let ?r1 = "r\<lparr>ssim_scores := ssim_scores r @ [a], psnr_scores := psnr_scores r @ [b]\<rparr>"
  obtain e1 r2 where s: "save_slice E cfg A X i ot rnp a b ?r1 = (e1, r2)"
    by (cases "save_slice E cfg A X i ot rnp a b ?r1") auto
  from save_slice_effect [OF s True] s assms True show ?thesis
    by (simp add: process_slice_def Let_def)
next
  case False
  with assms show ?thesis by (simp add: process_slice_def Let_def)
qed

lemma process_slice_raises:
  assumes "slice_images cfg X disp i = Inr (ot, rt, onp, rnp)"
    and "ssim E onp rnp = Inr a" and "psnr E onp rnp = Inr b"
    and "save_images A" and "py_index (slice_idx X) (int i) = Inr sl"
    and "\<not> write_ok E (length (written r))
             (path_join (log_path A) (anatomy cfg @ ''_'' @ str_int sl @ ''_or.jpg''))
         \<or> (\<forall>m. fromarray_mode (shape rnp) = Inr m \<longrightarrow> \<not> writes_jpeg m)
         \<or> \<not> font_available E
         \<or> \<not> write_ok E (Suc (length (written r)))
               (path_join (log_path A) (anatomy cfg @ ''_'' @ str_int sl @ ''.jpg''))"
  shows "fst (process_slice E cfg A X disp i r) \<noteq> None"
  using assms
  by (auto simp: process_slice_def save_slice_def Let_def split: sum.splits)

lemma slices_loop_raised:
  "fst (process_slice E cfg A X disp i r) = Some e \<Longrightarrow>
   slices_loop E cfg A X disp (i # rest) r = process_slice E cfg A X disp i r"
  by (cases "process_slice E cfg A X disp i r") auto

lemma batches_loop_raised:
  "reconstruct E cfg A idx X sigmas s = Inr (d, s') \<Longrightarrow>
   fst (slices_loop E cfg A X d [0..<batch_size cfg] r) = Some e \<Longrightarrow>
   batches_loop E cfg A sigmas idx (X # rest) s r = slices_loop E cfg A X d [0..<batch_size cfg] r"
  by (cases "slices_loop E cfg A X d [0..<batch_size cfg] r") auto

lemma sample_raised:
  "fst (batches_loop E cfg A (get_sigmas E cfg) 0 dataloader
          (st\<lparr>info_log := info_log st @ [TotalBatches (length dataloader)]\<rparr>) res) = Some e \<Longrightarrow>
   sample E cfg A dataloader st res =
     batches_loop E cfg A (get_sigmas E cfg) 0 dataloader
       (st\<lparr>info_log := info_log st @ [TotalBatches (length dataloader)]\<rparr>) res"
  by (cases "batches_loop E cfg A (get_sigmas E cfg) 0 dataloader
          (st\<lparr>info_log := info_log st @ [TotalBatches (length dataloader)]\<rparr>) res")
     (auto simp: sample_def Let_def)


text \<open>
  C7, as amended. A call of \<open>sample\<close> in which nothing raises writes \<open>stats.json\<close> last,
  with the scores of all slices of all batches, after the two images of every slice when
  saving is on. A failure to save an image is not caught. When the file system refuses one
  of the two images of a slice, when Pillow cannot read the array, or when the font cannot
  be loaded, the slice raises; a slice that raises ends the loop over the slices, the loop
  over the batches and \<open>sample\<close> with its error and its results, so that no later slice is
  processed; and a call that raises writes no \<open>stats.json\<close>. With saving on and the font
  missing, a call that has a slice to process raises, having written one file at most and
  appended one score at most. The scores of a slice are computed and appended to the lists
  of the sampler before the slice's images are saved, whether the saving then fails or not.
\<close>

theorem stats_written_unless_raised:
  assumes run: "sample E cfg A dataloader st res = (err, res')"
  shows "(err = None \<longrightarrow>
            (\<exists>ws. written res' = written res @ ws @
                     [(path_join (log_path A) ''stats.json'',
                       StatsJson (ssim_scores res') (psnr_scores res'))]
                  \<and> list_all (\<lambda>f. \<not> is_stats (snd f)) ws
                  \<and> writes_ok E (length (written res))
                       (ws @ [(path_join (log_path A) ''stats.json'',
                               StatsJson (ssim_scores res') (psnr_scores res'))])
                  \<and> length ws =
                       (if save_images A then 2 * (length dataloader * batch_size cfg) else 0))
            \<and> length (ssim_scores res') =
                length (ssim_scores res) + length dataloader * batch_size cfg
            \<and> length (psnr_scores res') =
                length (psnr_scores res) + length dataloader * batch_size cfg
            \<and> (save_images A \<and> 0 < length dataloader * batch_size cfg \<longrightarrow> font_available E))
       \<and> (err \<noteq> None \<longrightarrow>
            (\<exists>ws. written res' = written res @ ws \<and> list_all (\<lambda>f. \<not> is_stats (snd f)) ws
                  \<and> writes_ok E (length (written res)) ws))
       \<and> (save_images A \<and> \<not> font_available E \<and> 0 < length dataloader * batch_size cfg \<longrightarrow>
            err \<noteq> None
            \<and> length (written res') \<le> length (written res) + 1
            \<and> length (ssim_scores res') \<le> length (ssim_scores res) + 1
            \<and> length (psnr_scores res') \<le> length (psnr_scores res) + 1)
       \<and> (\<forall>X disp i r ot rt onp rnp a b.
            slice_images cfg X disp i = Inr (ot, rt, onp, rnp) \<longrightarrow>
            ssim E onp rnp = Inr a \<longrightarrow> psnr E onp rnp = Inr b \<longrightarrow>
            ssim_scores (snd (process_slice E cfg A X disp i r)) = ssim_scores r @ [a] \<and>
            psnr_scores (snd (process_slice E cfg A X disp i r)) = psnr_scores r @ [b])
       \<and> (\<forall>X disp i r ot rt onp rnp a b sl.
            slice_images cfg X disp i = Inr (ot, rt, onp, rnp) \<longrightarrow>
            ssim E onp rnp = Inr a \<longrightarrow> psnr E onp rnp = Inr b \<longrightarrow>
            save_images A \<longrightarrow> py_index (slice_idx X) (int i) = Inr sl \<longrightarrow>
            (\<not> write_ok E (length (written r))
                 (path_join (log_path A) (anatomy cfg @ ''_'' @ str_int sl @ ''_or.jpg''))
             \<or> (\<forall>m. fromarray_mode (shape rnp) = Inr m \<longrightarrow> \<not> writes_jpeg m)
             \<or> \<not> font_available E
             \<or> \<not> write_ok E (Suc (length (written r)))
                   (path_join (log_path A) (anatomy cfg @ ''_'' @ str_int sl @ ''.jpg''))) \<longrightarrow>
            fst (process_slice E cfg A X disp i r) \<noteq> None)
       \<and> (\<forall>X disp i rest r e.
            fst (process_slice E cfg A X disp i r) = Some e \<longrightarrow>
            slices_loop E cfg A X disp (i # rest) r = process_slice E cfg A X disp i r)
       \<and> (\<forall>sigmas idx X rest s r d s' e.
            reconstruct E cfg A idx X sigmas s = Inr (d, s') \<longrightarrow>
            fst (slices_loop E cfg A X d [0..<batch_size cfg] r) = Some e \<longrightarrow>
            batches_loop E cfg A sigmas idx (X # rest) s r =
              slices_loop E cfg A X d [0..<batch_size cfg] r)
       \<and> (\<forall>e. fst (batches_loop E cfg A (get_sigmas E cfg) 0 dataloader
                     (st\<lparr>info_log := info_log st @ [TotalBatches (length dataloader)]\<rparr>) res)
                 = Some e \<longrightarrow>
            (err, res') =
              batches_loop E cfg A (get_sigmas E cfg) 0 dataloader
                (st\<lparr>info_log := info_log st @ [TotalBatches (length dataloader)]\<rparr>) res)"
    (is "?P1 \<and> ?P2 \<and> ?P3 \<and> ?P4 \<and> ?P5 \<and> ?P6 \<and> ?P7 \<and> ?P8")
proof -
  let ?st1 = "st\<lparr>info_log := info_log st @ [TotalBatches (length dataloader)]\<rparr>"
  let ?n = "length dataloader * batch_size cfg"
  let ?stats = "path_join (log_path A) ''stats.json''"
  obtain e1 r1 where b: "batches_loop E cfg A (get_sigmas E cfg) 0 dataloader ?st1 res = (e1, r1)"
    by (cases "batches_loop E cfg A (get_sigmas E cfg) 0 dataloader ?st1 res") auto
  from batches_loop_effect [OF b] obtain ws where ws: "written r1 = written res @ ws"
      "list_all (\<lambda>f. \<not> is_stats (snd f)) ws" "writes_ok E (length (written res)) ws"
      "e1 = None \<longrightarrow>
         length (ssim_scores r1) = length (ssim_scores res) + ?n \<and>
         length (psnr_scores r1) = length (psnr_scores res) + ?n \<and>
         length ws = (if save_images A then 2 * ?n else 0) \<and>
         (save_images A \<and> 0 < ?n \<longrightarrow> font_available E)"
      "save_images A \<and> \<not> font_available E \<longrightarrow>
         length ws \<le> 1 \<and>
         length (ssim_scores r1) \<le> length (ssim_scores res) + 1 \<and>
         length (psnr_scores r1) \<le> length (psnr_scores res) + 1"
    unfolding saved_effect_def by blast
  have main: "?P1 \<and> ?P2 \<and> ?P3"
  proof (cases e1)
    case (Some e)
    with run b have "err = Some e" "res' = r1" by (simp_all add: sample_def Let_def)
    with ws show ?thesis by auto
  next
    case None
    with run b have w: "write_stats E A r1 = (err, res')" by (simp add: sample_def Let_def)
    show ?thesis
    proof (cases "write_ok E (length (written r1)) ?stats")
      case True
      with w have "err = None"
          "res' = r1\<lparr>written := written r1 @ [(?stats, StatsJson (ssim_scores r1) (psnr_scores r1))]\<rparr>"
        by (auto simp: write_stats_def Let_def)
      with ws None True show ?thesis
        by (auto simp: writes_ok_append)
    next
      case False
      with w have "err = Some IOError" "res' = r1" by (auto simp: write_stats_def Let_def)
      with ws None show ?thesis by auto
    qed
  qed
  have last: "?P8"
    using run sample_raised [of E cfg A dataloader st res] by auto
  have p4: "?P4" using process_slice_scores by blast
  have p5: "?P5" using process_slice_raises by blast
  have p6: "?P6" using slices_loop_raised by blast
  have p7: "?P7" using batches_loop_raised by blast
  from main p4 p5 p6 p7 last show ?thesis by (elim conjE, intro conjI)
qed


lemma str_int_0: "str_int 0 = ''0''"
  by (simp add: str_int_def str_nat.simps [of 0] digit_char_def)

lemma e2e_names:
  "path_join (log_path save_args) (anatomy e2e_cfg @ ''_'' @ str_int 0 @ ''_or.jpg'') = ''logs/brain_0_or.jpg''"
  "path_join (log_path save_args) (anatomy e2e_cfg @ ''_'' @ str_int 0 @ ''.jpg'') = ''logs/brain_0.jpg''"
  "path_join (log_path save_args) ''stats.json'' = ''logs/stats.json''"
  by (simp_all add: path_join_def save_args_def e2e_args_def e2e_cfg_def str_int_0)

lemma e2e_slice:
  assumes ok: "collaborators_ok E save_args e2e_batch
                 (get_mvue E (ground_truth e2e_batch) (maps e2e_batch)) (batch_size e2e_cfg) 1
                 (fst (image_size e2e_cfg)) (snd (image_size e2e_cfg))"
    and sg: "num_classes e2e_cfg \<le> int (length sigmas)"
  shows "\<exists>d s ot rt onp rnp.
           reconstruct E e2e_cfg save_args 0 e2e_batch sigmas st = Inr (d, s) \<and>
           slice_images e2e_cfg e2e_batch d 0 = Inr (ot, rt, onp, rnp) \<and> shape rnp = [8, 8]"
proof -
  have h: "0 < fst (image_size e2e_cfg)" and w: "0 < snd (image_size e2e_cfg)"
    by (simp_all add: e2e_cfg_def)
  from reconstruct_ok [OF ok sg h w]
  obtain d s where r: "reconstruct E e2e_cfg save_args 0 e2e_batch sigmas st = Inr (d, s)"
      "shape d = [batch_size e2e_cfg, fst (image_size e2e_cfg), snd (image_size e2e_cfg)]"
    by blast
  have d: "shape d = [1, 8, 8]" using r(2) by (simp add: e2e_cfg_def)
  have m: "shape (mvue e2e_batch) = [1, 1, 8, 8]" by (simp add: e2e_batch_def const_tensor_def)
  have c: "circle_mask e2e_cfg \<longrightarrow> (8::nat) \<noteq> 1 \<and> (8::nat) \<noteq> 1" by simp
  from slice_images_ok [OF d m _ _ _ c, of 0] r(1) show ?thesis by auto
qed

lemma stub_sigmas: "num_classes e2e_cfg \<le> int (length (get_sigmas stub_env e2e_cfg))"
  by (simp add: stub_env_def e2e_cfg_def)

lemma stub_save_ok:
  "collaborators_ok stub_env save_args e2e_batch
     (get_mvue stub_env (ground_truth e2e_batch) (maps e2e_batch)) (batch_size e2e_cfg) 1
     (fst (image_size e2e_cfg)) (snd (image_size e2e_cfg))"
  by (simp add: collaborators_ok_def stub_env_def stub_forward_def e2e_batch_def e2e_cfg_def
      const_tensor_def)

lemma nofont_run:
  "\<exists>ot. sample nofont_env e2e_cfg save_args [e2e_batch] start_state no_results =
     (Some IOError, \<lparr>ssim_scores = [Fin 1], psnr_scores = [Fin 1],
                     written = [(''logs/brain_0_or.jpg'', TensorImage ot)]\<rparr>)"
proof -
  have ok: "collaborators_ok nofont_env save_args e2e_batch
      (get_mvue nofont_env (ground_truth e2e_batch) (maps e2e_batch)) (batch_size e2e_cfg) 1
      (fst (image_size e2e_cfg)) (snd (image_size e2e_cfg))"
    using stub_save_ok by (simp add: nofont_env_def collaborators_ok_def)
  have sg: "num_classes e2e_cfg \<le> int (length (get_sigmas nofont_env e2e_cfg))"
    using stub_sigmas by (simp add: nofont_env_def)
  from e2e_slice [OF ok sg]
  obtain d s ot rt onp rnp where
    r: "reconstruct nofont_env e2e_cfg save_args 0 e2e_batch (get_sigmas nofont_env e2e_cfg)
          (start_state\<lparr>info_log := info_log start_state @ [TotalBatches (Suc 0)]\<rparr>)
          = Inr (d, s)"
    and sl: "slice_images e2e_cfg e2e_batch d 0 = Inr (ot, rt, onp, rnp)"
    and sh: "shape rnp = [8, 8]"
    by blast
  have env: "ssim nofont_env onp rnp = Inr (Fin 1)" "psnr nofont_env onp rnp = Inr (Fin 1)"
      "\<not> font_available nofont_env" "\<And>n p. write_ok nofont_env n p"
    by (simp_all add: nofont_env_def stub_env_def)
  have sv: "save_images save_args" by (simp add: save_args_def)
  have si: "py_index (slice_idx e2e_batch) 0 = Inr 0"
    by (simp add: py_index_def e2e_batch_def)
  have b1: "batch_size e2e_cfg = 1" by (simp add: e2e_cfg_def)
  have md: "fromarray_mode (shape rnp) = Inr ModeL" by (simp add: sh fromarray_mode_def)
  have "sample nofont_env e2e_cfg save_args [e2e_batch] start_state no_results =
     (Some IOError, \<lparr>ssim_scores = [Fin 1], psnr_scores = [Fin 1],
                     written = [(''logs/brain_0_or.jpg'', TensorImage ot)]\<rparr>)"
    unfolding sample_def Let_def using e2e_names
    by (simp add: r sl env sv si b1 md process_slice_def save_slice_def Let_def no_results_def)
  then show ?thesis by blast
qed

lemma stub_run:
  "\<exists>ot rnp. sample stub_env e2e_cfg save_args [e2e_batch] start_state no_results =
     (None, \<lparr>ssim_scores = [Fin 1], psnr_scores = [Fin 1],
             written = [(''logs/brain_0_or.jpg'', TensorImage ot),
                        (''logs/brain_0.jpg'', AnnotatedImage rnp (Fin 1) (Fin 1)),
                        (''logs/stats.json'', StatsJson [Fin 1] [Fin 1])]\<rparr>)"
proof -
  from e2e_slice [OF stub_save_ok stub_sigmas]
  obtain d s ot rt onp rnp where
    r: "reconstruct stub_env e2e_cfg save_args 0 e2e_batch (get_sigmas stub_env e2e_cfg)
          (start_state\<lparr>info_log := info_log start_state @ [TotalBatches (Suc 0)]\<rparr>)
          = Inr (d, s)"
    and sl: "slice_images e2e_cfg e2e_batch d 0 = Inr (ot, rt, onp, rnp)"
    and sh: "shape rnp = [8, 8]"
    by blast
  have env: "ssim stub_env onp rnp = Inr (Fin 1)" "psnr stub_env onp rnp = Inr (Fin 1)"
      "font_available stub_env" "\<And>n p. write_ok stub_env n p"
    by (simp_all add: stub_env_def)
  have sv: "save_images save_args" by (simp add: save_args_def)
  have si: "py_index (slice_idx e2e_batch) 0 = Inr 0"
    by (simp add: py_index_def e2e_batch_def)
  have b1: "batch_size e2e_cfg = 1" by (simp add: e2e_cfg_def)
  have md: "fromarray_mode (shape rnp) = Inr ModeL" by (simp add: sh fromarray_mode_def)
  have "sample stub_env e2e_cfg save_args [e2e_batch] start_state no_results =
     (None, \<lparr>ssim_scores = [Fin 1], psnr_scores = [Fin 1],
             written = [(''logs/brain_0_or.jpg'', TensorImage ot),
                        (''logs/brain_0.jpg'', AnnotatedImage rnp (Fin 1) (Fin 1)),
                        (''logs/stats.json'', StatsJson [Fin 1] [Fin 1])]\<rparr>)"
    unfolding sample_def Let_def using e2e_names
    by (simp add: r sl env sv si b1 md process_slice_def save_slice_def write_stats_def Let_def
        no_results_def)
  then show ?thesis by blast
qed

text \<open>
  The claim as stated fails where the font of line 124 cannot be loaded: the call raises
  after the first image of the first slice is written, the scores of the slice are in the
  lists, and \<open>stats.json\<close> is not written.
\<close>

theorem stats_written_unless_raised_counterexample:
  "fst (sample nofont_env e2e_cfg save_args [e2e_batch] start_state no_results) = Some IOError
   \<and> map fst (written (snd (sample nofont_env e2e_cfg save_args [e2e_batch] start_state no_results)))
       = [''logs/brain_0_or.jpg'']
   \<and> ssim_scores (snd (sample nofont_env e2e_cfg save_args [e2e_batch] start_state no_results))
       = [Fin 1]
   \<and> psnr_scores (snd (sample nofont_env e2e_cfg save_args [e2e_batch] start_state no_results))
       = [Fin 1]"
  using nofont_run by auto

theorem stats_written_unless_raised_witness:
  "(\<exists>res'. sample stub_env e2e_cfg save_args [e2e_batch] start_state no_results = (None, res')
      \<and> (\<exists>ws. written res' = ws @ [(''logs/stats.json'',
                                     StatsJson (ssim_scores res') (psnr_scores res'))]
               \<and> length ws = 2)
      \<and> length (ssim_scores res') = 1)
   \<and> fst (sample nofont_env e2e_cfg save_args [e2e_batch] start_state no_results) \<noteq> None
   \<and> length (written (snd (sample nofont_env e2e_cfg save_args [e2e_batch] start_state no_results)))
       \<le> 1
   \<and> list_all (\<lambda>f. \<not> is_stats (snd f))
       (written (snd (sample nofont_env e2e_cfg save_args [e2e_batch] start_state no_results)))"
proof -
  have sv: "save_images save_args" by (simp add: save_args_def e2e_args_def)
  have b1: "batch_size e2e_cfg = 1" by (simp add: e2e_cfg_def)
  from stub_run obtain r1 where
    r1: "sample stub_env e2e_cfg save_args [e2e_batch] start_state no_results = (None, r1)"
    by blast
  note p1 = stats_written_unless_raised [OF r1, THEN conjunct1]
  from p1
  have a: "(\<exists>ws. written r1 = ws @ [(''logs/stats.json'', StatsJson (ssim_scores r1) (psnr_scores r1))]
              \<and> length ws = 2)
      \<and> length (ssim_scores r1) = 1"
    using e2e_names(3) sv b1 by (auto simp: no_results_def)
  let ?run = "sample nofont_env e2e_cfg save_args [e2e_batch] start_state no_results"
  have r2: "?run = (fst ?run, snd ?run)" by simp
  have nf: "\<not> font_available nofont_env" by (simp add: nofont_env_def)
  note t = stats_written_unless_raised [OF r2]
  note p2 = t [THEN conjunct2, THEN conjunct1]
  note p3 = t [THEN conjunct2, THEN conjunct2, THEN conjunct1]
  from p3 sv nf b1 have e: "fst ?run \<noteq> None" and l: "length (written (snd ?run)) \<le> 1"
    by (simp_all add: no_results_def)
  from p2 e have "\<exists>ws. written (snd ?run) = written no_results @ ws \<and>
      list_all (\<lambda>f. \<not> is_stats (snd f)) ws"
    by blast
  then have n: "list_all (\<lambda>f. \<not> is_stats (snd f)) (written (snd ?run))"
    by (auto simp: no_results_def)
  from r1 a e l n show ?thesis by blast
qed


end
